theory Spec2Isabelle
  imports Complex_Main "HOL-Library.Log_Nat"
begin

section \<open>Python values used by the service\<close>

subsection \<open>Strings\<close>

text \<open>
  A Python \<^verbatim>\<open>str\<close> is a sequence of Unicode code points and \<^verbatim>\<open>len\<close> counts them,
  so a string is a list of code points. \<open>py_str\<close> embeds an ASCII literal.
\<close>

type_synonym pystr = "nat list"

definition py_str :: "string \<Rightarrow> pystr" where
  "py_str s = map of_char s"

text \<open>
  \<^verbatim>\<open>str.isspace\<close> on one code point: the code points that CPython classifies as
  whitespace (U+0009..U+000D, U+001C..U+0020, U+0085, U+00A0, U+1680, U+2000..U+200A,
  U+2028, U+2029, U+202F, U+205F, U+3000).
\<close>

definition isspace :: "nat \<Rightarrow> bool" where
  "isspace c \<longleftrightarrow>
     (9 \<le> c \<and> c \<le> 13) \<or> (28 \<le> c \<and> c \<le> 32) \<or> c = 133 \<or> c = 160 \<or> c = 5760 \<or>
     (8192 \<le> c \<and> c \<le> 8202) \<or> c = 8232 \<or> c = 8233 \<or> c = 8239 \<or> c = 8287 \<or> c = 12288"

text \<open>\<^verbatim>\<open>str.strip()\<close> without argument: drop leading and trailing whitespace.\<close>

definition strip :: "pystr \<Rightarrow> pystr" where
  "strip s = rev (dropWhile isspace (rev (dropWhile isspace s)))"

subsection \<open>Dictionaries\<close>

text \<open>
  A Python \<^verbatim>\<open>dict\<close> iterates in insertion order, so a dictionary literal with pairwise
  distinct keys is the list of its items; \<open>key_in\<close> is the operator \<^verbatim>\<open>in\<close> and
  \<open>items\<close> is \<^verbatim>\<open>.items()\<close>.
\<close>

type_synonym ('k, 'v) dict = "('k \<times> 'v) list"

definition items :: "('k, 'v) dict \<Rightarrow> ('k \<times> 'v) list" where
  "items d = d"

definition key_in :: "'k \<Rightarrow> ('k, 'v) dict \<Rightarrow> bool" where
  "key_in k d \<longleftrightarrow> k \<in> set (map fst d)"

subsection \<open>Floats\<close>

text \<open>
  A Python \<^verbatim>\<open>float\<close> is an IEEE 754 binary64 number. A finite double is a rational, and
  every arithmetic operation returns the exact result rounded to the nearest double, ties
  to the even significand. \<open>round_double\<close> is that rounding for a significand of 53 bits;
  the exponent is not bounded, which agrees with binary64 on the normal range (magnitudes
  from \<open>2 powi (-1022)\<close> up to \<open>2 powi 1024\<close>, exclusive). Every value the service computes
  lies in that range: the length of a Python string is below \<open>2 ^ 63\<close>.
\<close>

type_synonym py_float = rat

text \<open>For \<open>0 < x\<close>, the exponent \<open>e\<close> with \<open>2 powi e \<le> x < 2 powi (e + 1)\<close>.\<close>

definition floor_log2 :: "rat \<Rightarrow> int" where
  "floor_log2 x = (if 1 \<le> x then bitlen \<lfloor>x\<rfloor> - 1 else - bitlen (\<lceil>1 / x\<rceil> - 1))"

definition round_half_even :: "rat \<Rightarrow> int" where
  "round_half_even x =
     (let f = \<lfloor>x\<rfloor>; r = x - of_int f
      in if r < 1 / 2 then f
         else if 1 / 2 < r then f + 1
         else if even f then f else f + 1)"

definition round_double :: "rat \<Rightarrow> py_float" where
  "round_double x =
     (if x = 0 then 0
      else let u = 2 powi (floor_log2 \<bar>x\<bar> - 52)
           in of_int (round_half_even (x / u)) * u)"

text \<open>A decimal literal denotes the double nearest to it.\<close>

definition float_lit :: "rat \<Rightarrow> py_float" where
  "float_lit q = round_double q"

text \<open>\<^verbatim>\<open>int * float\<close> converts the integer to a double first.\<close>

definition float_of_int :: "int \<Rightarrow> py_float" where
  "float_of_int n = round_double (of_int n)"

definition float_mul :: "py_float \<Rightarrow> py_float \<Rightarrow> py_float" where
  "float_mul a b = round_double (a * b)"

definition float_add :: "py_float \<Rightarrow> py_float \<Rightarrow> py_float" where
  "float_add a b = round_double (a + b)"

subsection \<open>Exceptions and effects\<close>

text \<open>
  \<open>HTTPException\<close> is the framework's exception, a subclass of \<^verbatim>\<open>Exception\<close>;
  \<open>OtherException\<close> stands for every other subclass of \<^verbatim>\<open>Exception\<close>, with its message.
\<close>

datatype py_exception =
    HTTPException (status_code: int) (detail: pystr)
  | OtherException pystr

text \<open>
  What a request does besides returning: the calls to the two external services, in
  order, and the lines written to the error log (the prefix and the exception formatted
  into the line).
\<close>

datatype event =
    DetectCall pystr
  | TranslatorCall pystr pystr pystr
  | LogError pystr py_exception

text \<open>
  \<^verbatim>\<open>langdetect.detect(text)\<close> returns a language code or raises.
  \<^verbatim>\<open>GoogleTranslator(source, target).translate(text)\<close> returns a string or \<^verbatim>\<open>None\<close>,
  or raises (the arguments here are source, target, text).
\<close>

type_synonym detector = "pystr \<Rightarrow> py_exception + pystr"

type_synonym translator = "pystr \<Rightarrow> pystr \<Rightarrow> pystr \<Rightarrow> py_exception + pystr option"

definition translator_calls :: "event list \<Rightarrow> nat" where
  "translator_calls evs = length (filter (\<lambda>ev. case ev of TranslatorCall s t x \<Rightarrow> True | _ \<Rightarrow> False) evs)"

definition external_calls :: "event list \<Rightarrow> nat" where
  "external_calls evs = length (filter (\<lambda>ev. case ev of LogError p e \<Rightarrow> False | _ \<Rightarrow> True) evs)"

section \<open>The data model (app/main.py)\<close>

record TranslationRequest =
  "text" :: pystr
  target_language :: pystr

record TranslationResponse =
  original_text :: pystr
  detected_language :: pystr
  confidence_level :: py_float
  translated_text :: pystr
  target_language :: pystr

record LanguageInfo =
  code :: pystr
  name :: pystr
  native_name :: pystr

text \<open>The value of one entry of the language table, a dictionary with two fixed keys.\<close>

record language_names =
  name :: pystr
  native_name :: pystr

definition SUPPORTED_LANGUAGES :: "(pystr, language_names) dict" where
  "SUPPORTED_LANGUAGES = [
    (py_str ''af'', \<lparr>name = py_str ''Afrikaans'', native_name = py_str ''Afrikaans''\<rparr>),
    (py_str ''sq'', \<lparr>name = py_str ''Albanian'', native_name = py_str ''Shqip''\<rparr>),
    (py_str ''am'', \<lparr>name = py_str ''Amharic'', native_name = [4768, 4635, 4653, 4763]\<rparr>),
    (py_str ''ar'', \<lparr>name = py_str ''Arabic'', native_name = [1575, 1604, 1593, 1585, 1576, 1610, 1577]\<rparr>),
    (py_str ''hy'', \<lparr>name = py_str ''Armenian'', native_name = [1344, 1377, 1397, 1381, 1408, 1381, 1398]\<rparr>),
    (py_str ''az'', \<lparr>name = py_str ''Azerbaijani'', native_name = [65, 122, 601, 114, 98, 97, 121, 99, 97, 110]\<rparr>),
    (py_str ''eu'', \<lparr>name = py_str ''Basque'', native_name = py_str ''Euskara''\<rparr>),
    (py_str ''be'', \<lparr>name = py_str ''Belarusian'', native_name = [1041, 1077, 1083, 1072, 1088, 1091, 1089, 1082, 1072, 1103]\<rparr>),
    (py_str ''bn'', \<lparr>name = py_str ''Bengali'', native_name = [2476, 2494, 2434, 2482, 2494]\<rparr>),
    (py_str ''bs'', \<lparr>name = py_str ''Bosnian'', native_name = py_str ''Bosanski''\<rparr>),
    (py_str ''bg'', \<lparr>name = py_str ''Bulgarian'', native_name = [1041, 1098, 1083, 1075, 1072, 1088, 1089, 1082, 1080]\<rparr>),
    (py_str ''ca'', \<lparr>name = py_str ''Catalan'', native_name = [67, 97, 116, 97, 108, 224]\<rparr>),
    (py_str ''ceb'', \<lparr>name = py_str ''Cebuano'', native_name = py_str ''Cebuano''\<rparr>),
    (py_str ''zh'', \<lparr>name = py_str ''Chinese (Simplified)'', native_name = [20013, 25991, 32, 40, 31616, 20307, 41]\<rparr>),
    (py_str ''zh-TW'', \<lparr>name = py_str ''Chinese (Traditional)'', native_name = [20013, 25991, 32, 40, 32321, 39636, 41]\<rparr>),
    (py_str ''co'', \<lparr>name = py_str ''Corsican'', native_name = py_str ''Corsu''\<rparr>),
    (py_str ''hr'', \<lparr>name = py_str ''Croatian'', native_name = py_str ''Hrvatski''\<rparr>),
    (py_str ''cs'', \<lparr>name = py_str ''Czech'', native_name = [268, 101, 353, 116, 105, 110, 97]\<rparr>),
    (py_str ''da'', \<lparr>name = py_str ''Danish'', native_name = py_str ''Dansk''\<rparr>),
    (py_str ''nl'', \<lparr>name = py_str ''Dutch'', native_name = py_str ''Nederlands''\<rparr>),
    (py_str ''en'', \<lparr>name = py_str ''English'', native_name = py_str ''English''\<rparr>),
    (py_str ''eo'', \<lparr>name = py_str ''Esperanto'', native_name = py_str ''Esperanto''\<rparr>),
    (py_str ''et'', \<lparr>name = py_str ''Estonian'', native_name = py_str ''Eesti''\<rparr>),
    (py_str ''fi'', \<lparr>name = py_str ''Finnish'', native_name = py_str ''Suomi''\<rparr>),
    (py_str ''fr'', \<lparr>name = py_str ''French'', native_name = [70, 114, 97, 110, 231, 97, 105, 115]\<rparr>),
    (py_str ''fy'', \<lparr>name = py_str ''Frisian'', native_name = py_str ''Frysk''\<rparr>),
    (py_str ''gl'', \<lparr>name = py_str ''Galician'', native_name = py_str ''Galego''\<rparr>),
    (py_str ''ka'', \<lparr>name = py_str ''Georgian'', native_name = [4325, 4304, 4320, 4311, 4323, 4314, 4312]\<rparr>),
    (py_str ''de'', \<lparr>name = py_str ''German'', native_name = py_str ''Deutsch''\<rparr>),
    (py_str ''el'', \<lparr>name = py_str ''Greek'', native_name = [917, 955, 955, 951, 957, 953, 954, 940]\<rparr>),
    (py_str ''gu'', \<lparr>name = py_str ''Gujarati'', native_name = [2711, 2753, 2716, 2736, 2750, 2724, 2752]\<rparr>),
    (py_str ''ht'', \<lparr>name = py_str ''Haitian Creole'', native_name = [75, 114, 101, 121, 242, 108, 32, 65, 121, 105, 115, 121, 101, 110]\<rparr>),
    (py_str ''ha'', \<lparr>name = py_str ''Hausa'', native_name = py_str ''Hausa''\<rparr>),
    (py_str ''haw'', \<lparr>name = py_str ''Hawaiian'', native_name = [699, 332, 108, 101, 108, 111, 32, 72, 97, 119, 97, 105, 699, 105]\<rparr>),
    (py_str ''he'', \<lparr>name = py_str ''Hebrew'', native_name = [1506, 1489, 1512, 1497, 1514]\<rparr>),
    (py_str ''hi'', \<lparr>name = py_str ''Hindi'', native_name = [2361, 2367, 2344, 2381, 2342, 2368]\<rparr>),
    (py_str ''hmn'', \<lparr>name = py_str ''Hmong'', native_name = py_str ''Hmong''\<rparr>),
    (py_str ''hu'', \<lparr>name = py_str ''Hungarian'', native_name = py_str ''Magyar''\<rparr>),
    (py_str ''is'', \<lparr>name = py_str ''Icelandic'', native_name = [205, 115, 108, 101, 110, 115, 107, 97]\<rparr>),
    (py_str ''ig'', \<lparr>name = py_str ''Igbo'', native_name = py_str ''Igbo''\<rparr>),
    (py_str ''id'', \<lparr>name = py_str ''Indonesian'', native_name = py_str ''Indonesia''\<rparr>),
    (py_str ''ga'', \<lparr>name = py_str ''Irish'', native_name = py_str ''Gaeilge''\<rparr>),
    (py_str ''it'', \<lparr>name = py_str ''Italian'', native_name = py_str ''Italiano''\<rparr>),
    (py_str ''ja'', \<lparr>name = py_str ''Japanese'', native_name = [26085, 26412, 35486]\<rparr>),
    (py_str ''jv'', \<lparr>name = py_str ''Javanese'', native_name = py_str ''Basa Jawa''\<rparr>),
    (py_str ''kn'', \<lparr>name = py_str ''Kannada'', native_name = [3221, 3240, 3277, 3240, 3233]\<rparr>),
    (py_str ''kk'', \<lparr>name = py_str ''Kazakh'', native_name = [1178, 1072, 1079, 1072, 1179]\<rparr>),
    (py_str ''km'', \<lparr>name = py_str ''Khmer'', native_name = [6017, 6098, 6040, 6082, 6042]\<rparr>),
    (py_str ''ko'', \<lparr>name = py_str ''Korean'', native_name = [54620, 44397, 50612]\<rparr>),
    (py_str ''ku'', \<lparr>name = py_str ''Kurdish'', native_name = [75, 117, 114, 100, 238]\<rparr>),
    (py_str ''ky'', \<lparr>name = py_str ''Kyrgyz'', native_name = [1050, 1099, 1088, 1075, 1099, 1079, 1095, 1072]\<rparr>),
    (py_str ''lo'', \<lparr>name = py_str ''Lao'', native_name = [3749, 3762, 3751]\<rparr>),
    (py_str ''la'', \<lparr>name = py_str ''Latin'', native_name = py_str ''Latina''\<rparr>),
    (py_str ''lv'', \<lparr>name = py_str ''Latvian'', native_name = [76, 97, 116, 118, 105, 101, 353, 117]\<rparr>),
    (py_str ''lt'', \<lparr>name = py_str ''Lithuanian'', native_name = [76, 105, 101, 116, 117, 118, 105, 371]\<rparr>),
    (py_str ''lb'', \<lparr>name = py_str ''Luxembourgish'', native_name = [76, 235, 116, 122, 101, 98, 117, 101, 114, 103, 101, 115, 99, 104]\<rparr>),
    (py_str ''mk'', \<lparr>name = py_str ''Macedonian'', native_name = [1052, 1072, 1082, 1077, 1076, 1086, 1085, 1089, 1082, 1080]\<rparr>),
    (py_str ''mg'', \<lparr>name = py_str ''Malagasy'', native_name = py_str ''Malagasy''\<rparr>),
    (py_str ''ms'', \<lparr>name = py_str ''Malay'', native_name = py_str ''Bahasa Melayu''\<rparr>),
    (py_str ''ml'', \<lparr>name = py_str ''Malayalam'', native_name = [3374, 3378, 3375, 3390, 3379, 3330]\<rparr>),
    (py_str ''mt'', \<lparr>name = py_str ''Maltese'', native_name = py_str ''Malti''\<rparr>),
    (py_str ''mi'', \<lparr>name = py_str ''Maori'', native_name = [77, 257, 111, 114, 105]\<rparr>),
    (py_str ''mr'', \<lparr>name = py_str ''Marathi'', native_name = [2350, 2352, 2366, 2336, 2368]\<rparr>),
    (py_str ''mn'', \<lparr>name = py_str ''Mongolian'', native_name = [1052, 1086, 1085, 1075, 1086, 1083]\<rparr>),
    (py_str ''my'', \<lparr>name = py_str ''Myanmar (Burmese)'', native_name = [4121, 4156, 4116, 4154, 4121, 4140, 32, 40, 4119, 4121, 4140, 41]\<rparr>),
    (py_str ''ne'', \<lparr>name = py_str ''Nepali'', native_name = [2344, 2375, 2346, 2366, 2354, 2368]\<rparr>),
    (py_str ''no'', \<lparr>name = py_str ''Norwegian'', native_name = py_str ''Norsk''\<rparr>),
    (py_str ''ny'', \<lparr>name = py_str ''Nyanja (Chichewa)'', native_name = py_str ''Nyanja (Chichewa)''\<rparr>),
    (py_str ''or'', \<lparr>name = py_str ''Odia (Oriya)'', native_name = [2835, 2849, 2876, 2879, 2822, 32, 40, 2835, 2849, 2876, 2879, 2822, 41]\<rparr>),
    (py_str ''ps'', \<lparr>name = py_str ''Pashto'', native_name = [1662, 1690, 1578, 1608]\<rparr>),
    (py_str ''fa'', \<lparr>name = py_str ''Persian'', native_name = [1601, 1575, 1585, 1587, 1740]\<rparr>),
    (py_str ''pl'', \<lparr>name = py_str ''Polish'', native_name = py_str ''Polski''\<rparr>),
    (py_str ''pt'', \<lparr>name = py_str ''Portuguese'', native_name = [80, 111, 114, 116, 117, 103, 117, 234, 115]\<rparr>),
    (py_str ''pa'', \<lparr>name = py_str ''Punjabi'', native_name = [2602, 2672, 2588, 2622, 2604, 2624]\<rparr>),
    (py_str ''ro'', \<lparr>name = py_str ''Romanian'', native_name = [82, 111, 109, 226, 110, 259]\<rparr>),
    (py_str ''ru'', \<lparr>name = py_str ''Russian'', native_name = [1056, 1091, 1089, 1089, 1082, 1080, 1081]\<rparr>),
    (py_str ''sm'', \<lparr>name = py_str ''Samoan'', native_name = py_str ''Gagana Samoa''\<rparr>),
    (py_str ''gd'', \<lparr>name = py_str ''Scots Gaelic'', native_name = [71, 224, 105, 100, 104, 108, 105, 103]\<rparr>),
    (py_str ''sr'', \<lparr>name = py_str ''Serbian'', native_name = [1057, 1088, 1087, 1089, 1082, 1080]\<rparr>),
    (py_str ''st'', \<lparr>name = py_str ''Sesotho'', native_name = py_str ''Sesotho''\<rparr>),
    (py_str ''sn'', \<lparr>name = py_str ''Shona'', native_name = py_str ''Shona''\<rparr>),
    (py_str ''sd'', \<lparr>name = py_str ''Sindhi'', native_name = [1587, 1606, 1676, 1610]\<rparr>),
    (py_str ''si'', \<lparr>name = py_str ''Sinhala (Sinhalese)'', native_name = [3523, 3538, 3458, 3524, 3517]\<rparr>),
    (py_str ''sk'', \<lparr>name = py_str ''Slovak'', native_name = [83, 108, 111, 118, 101, 110, 269, 105, 110, 97]\<rparr>),
    (py_str ''sl'', \<lparr>name = py_str ''Slovenian'', native_name = [83, 108, 111, 118, 101, 110, 353, 269, 105, 110, 97]\<rparr>),
    (py_str ''so'', \<lparr>name = py_str ''Somali'', native_name = py_str ''Soomaali''\<rparr>),
    (py_str ''es'', \<lparr>name = py_str ''Spanish'', native_name = [69, 115, 112, 97, 241, 111, 108]\<rparr>),
    (py_str ''su'', \<lparr>name = py_str ''Sundanese'', native_name = py_str ''Basa Sunda''\<rparr>),
    (py_str ''sw'', \<lparr>name = py_str ''Swahili'', native_name = py_str ''Kiswahili''\<rparr>),
    (py_str ''sv'', \<lparr>name = py_str ''Swedish'', native_name = py_str ''Svenska''\<rparr>),
    (py_str ''tg'', \<lparr>name = py_str ''Tajik'', native_name = [1058, 1086, 1207, 1080, 1082, 1251]\<rparr>),
    (py_str ''ta'', \<lparr>name = py_str ''Tamil'', native_name = [2980, 2990, 3007, 2996, 3021]\<rparr>),
    (py_str ''tt'', \<lparr>name = py_str ''Tatar'', native_name = [1058, 1072, 1090, 1072, 1088]\<rparr>),
    (py_str ''te'', \<lparr>name = py_str ''Telugu'', native_name = [3108, 3142, 3122, 3137, 3095, 3137]\<rparr>),
    (py_str ''th'', \<lparr>name = py_str ''Thai'', native_name = [3652, 3607, 3618]\<rparr>),
    (py_str ''tr'', \<lparr>name = py_str ''Turkish'', native_name = [84, 252, 114, 107, 231, 101]\<rparr>),
    (py_str ''tk'', \<lparr>name = py_str ''Turkmen'', native_name = [84, 252, 114, 107, 109, 101, 110]\<rparr>),
    (py_str ''ak'', \<lparr>name = py_str ''Twi'', native_name = py_str ''Twi''\<rparr>),
    (py_str ''uk'', \<lparr>name = py_str ''Ukrainian'', native_name = [1059, 1082, 1088, 1072, 1111, 1085, 1089, 1100, 1082, 1072]\<rparr>),
    (py_str ''ur'', \<lparr>name = py_str ''Urdu'', native_name = [1575, 1585, 1583, 1608]\<rparr>),
    (py_str ''ug'', \<lparr>name = py_str ''Uyghur'', native_name = [1574, 1735, 1610, 1594, 1735, 1585, 1670, 1749]\<rparr>),
    (py_str ''uz'', \<lparr>name = py_str ''Uzbek'', native_name = [79, 39, 122, 98, 101, 107]\<rparr>),
    (py_str ''ve'', \<lparr>name = py_str ''Venda'', native_name = py_str ''Tshivenda''\<rparr>),
    (py_str ''vi'', \<lparr>name = py_str ''Vietnamese'', native_name = [84, 105, 7871, 110, 103, 32, 86, 105, 7879, 116]\<rparr>),
    (py_str ''cy'', \<lparr>name = py_str ''Welsh'', native_name = py_str ''Cymraeg''\<rparr>),
    (py_str ''xh'', \<lparr>name = py_str ''Xhosa'', native_name = py_str ''isiXhosa''\<rparr>),
    (py_str ''yi'', \<lparr>name = py_str ''Yiddish'', native_name = [1497, 1497, 1491, 1497, 1513]\<rparr>),
    (py_str ''yo'', \<lparr>name = py_str ''Yoruba'', native_name = [89, 111, 114, 249, 98, 225]\<rparr>),
    (py_str ''zu'', \<lparr>name = py_str ''Zulu'', native_name = py_str ''isiZulu''\<rparr>)
  ]"

section \<open>The operations (app/main.py)\<close>

definition detect_language_with_confidence ::
    "detector \<Rightarrow> pystr \<Rightarrow> (pystr \<times> py_float) \<times> event list" where
  "detect_language_with_confidence detect txt =
     (case detect txt of
        Inr detected_lang \<Rightarrow>
          let confidence =
                min (float_lit (95 / 100))
                    (float_add (float_lit (7 / 10))
                       (float_mul (float_of_int (int (length txt))) (float_lit (1 / 100))))
          in ((detected_lang, confidence), [DetectCall txt])
      | Inl e \<Rightarrow>
          ((py_str ''en'', float_lit (5 / 10)),
           [DetectCall txt, LogError (py_str ''Language detection failed: '') e]))"

text \<open>The loop of the listing appends one record per item of the table.\<close>

definition get_supported_languages :: "LanguageInfo list" where
  "get_supported_languages =
     foldl (\<lambda>languages (code, info).
              languages @ [\<lparr>code = code, LanguageInfo.name = name info,
                            LanguageInfo.native_name = native_name info\<rparr>])
       [] (items SUPPORTED_LANGUAGES)"

text \<open>
  The inner \<^verbatim>\<open>try\<close> of \<open>translate_text\<close> with its handler \<^verbatim>\<open>except Exception\<close>: the
  handler receives every exception raised in the body, the \<open>HTTPException\<close> that the body
  raises itself included.
\<close>

definition perform_translation ::
    "translator \<Rightarrow> TranslationRequest \<Rightarrow> pystr \<Rightarrow> py_float \<Rightarrow>
     (py_exception + TranslationResponse) \<times> event list" where
  "perform_translation translator request detected_lang confidence =
     (let call = TranslatorCall detected_lang (TranslationRequest.target_language request) (text request);
          body =
            (case translator detected_lang (TranslationRequest.target_language request) (text request) of
               Inl e \<Rightarrow> Inl e
             | Inr None \<Rightarrow> Inl (HTTPException 500 (py_str ''Translation failed''))
             | Inr (Some translated) \<Rightarrow>
                 if translated = [] then Inl (HTTPException 500 (py_str ''Translation failed''))
                 else Inr \<lparr>original_text = text request,
                           detected_language = detected_lang,
                           confidence_level = confidence,
                           translated_text = translated,
                           target_language = TranslationRequest.target_language request\<rparr>)
      in case body of
           Inr response \<Rightarrow> (Inr response, [call])
         | Inl e \<Rightarrow>
             (Inl (HTTPException 500 (py_str ''Translation service error'')),
              [call, LogError (py_str ''Translation error: '') e]))"

text \<open>The body of the outer \<^verbatim>\<open>try\<close>.\<close>

definition translate_text_body ::
    "detector \<Rightarrow> translator \<Rightarrow> TranslationRequest \<Rightarrow>
     (py_exception + TranslationResponse) \<times> event list" where
  "translate_text_body detect translator request =
     (if strip (text request) = [] then
        (Inl (HTTPException 400 (py_str ''Text cannot be empty'')), [])
      else if \<not> key_in (TranslationRequest.target_language request) SUPPORTED_LANGUAGES then
        (Inl (HTTPException 400 (py_str ''Target language not supported'')), [])
      else
        let ((detected_lang, confidence), evs) = detect_language_with_confidence detect (text request)
        in if detected_lang = TranslationRequest.target_language request then
             (Inr \<lparr>original_text = text request,
                   detected_language = detected_lang,
                   confidence_level = confidence,
                   translated_text = text request,
                   target_language = TranslationRequest.target_language request\<rparr>, evs)
           else
             let (result, evs') = perform_translation translator request detected_lang confidence
             in (result, evs @ evs'))"

text \<open>
  The outer handlers: \<^verbatim>\<open>except HTTPException: raise\<close>, then \<^verbatim>\<open>except Exception\<close>, which
  turns anything else into the status 500 with the detail "Internal server error".
\<close>

definition translate_text ::
    "detector \<Rightarrow> translator \<Rightarrow> TranslationRequest \<Rightarrow>
     (py_exception + TranslationResponse) \<times> event list" where
  "translate_text detect translator request =
     (case translate_text_body detect translator request of
        (Inl (HTTPException c d), evs) \<Rightarrow> (Inl (HTTPException c d), evs)
      | (Inl (OtherException m), evs) \<Rightarrow>
          (Inl (HTTPException 500 (py_str ''Internal server error'')),
           evs @ [LogError (py_str ''Unexpected error: '') (OtherException m)])
      | (Inr response, evs) \<Rightarrow> (Inr response, evs))"

section \<open>The deployment variant (app/main_vercel.py)\<close>

text \<open>
  The variant declares the same three classes and has its own copy of the language
  table, of the detection and of the handler; each is embedded from that file.
\<close>

definition SUPPORTED_LANGUAGES_vercel :: "(pystr, language_names) dict" where
  "SUPPORTED_LANGUAGES_vercel = [
    (py_str ''af'', \<lparr>name = py_str ''Afrikaans'', native_name = py_str ''Afrikaans''\<rparr>),
    (py_str ''sq'', \<lparr>name = py_str ''Albanian'', native_name = py_str ''Shqip''\<rparr>),
    (py_str ''am'', \<lparr>name = py_str ''Amharic'', native_name = [4768, 4635, 4653, 4763]\<rparr>),
    (py_str ''ar'', \<lparr>name = py_str ''Arabic'', native_name = [1575, 1604, 1593, 1585, 1576, 1610, 1577]\<rparr>),
    (py_str ''hy'', \<lparr>name = py_str ''Armenian'', native_name = [1344, 1377, 1397, 1381, 1408, 1381, 1398]\<rparr>),
    (py_str ''az'', \<lparr>name = py_str ''Azerbaijani'', native_name = [65, 122, 601, 114, 98, 97, 121, 99, 97, 110]\<rparr>),
    (py_str ''eu'', \<lparr>name = py_str ''Basque'', native_name = py_str ''Euskara''\<rparr>),
    (py_str ''be'', \<lparr>name = py_str ''Belarusian'', native_name = [1041, 1077, 1083, 1072, 1088, 1091, 1089, 1082, 1072, 1103]\<rparr>),
    (py_str ''bn'', \<lparr>name = py_str ''Bengali'', native_name = [2476, 2494, 2434, 2482, 2494]\<rparr>),
    (py_str ''bs'', \<lparr>name = py_str ''Bosnian'', native_name = py_str ''Bosanski''\<rparr>),
    (py_str ''bg'', \<lparr>name = py_str ''Bulgarian'', native_name = [1041, 1098, 1083, 1075, 1072, 1088, 1089, 1082, 1080]\<rparr>),
    (py_str ''ca'', \<lparr>name = py_str ''Catalan'', native_name = [67, 97, 116, 97, 108, 224]\<rparr>),
    (py_str ''ceb'', \<lparr>name = py_str ''Cebuano'', native_name = py_str ''Cebuano''\<rparr>),
    (py_str ''zh'', \<lparr>name = py_str ''Chinese (Simplified)'', native_name = [20013, 25991, 32, 40, 31616, 20307, 41]\<rparr>),
    (py_str ''zh-TW'', \<lparr>name = py_str ''Chinese (Traditional)'', native_name = [20013, 25991, 32, 40, 32321, 39636, 41]\<rparr>),
    (py_str ''co'', \<lparr>name = py_str ''Corsican'', native_name = py_str ''Corsu''\<rparr>),
    (py_str ''hr'', \<lparr>name = py_str ''Croatian'', native_name = py_str ''Hrvatski''\<rparr>),
    (py_str ''cs'', \<lparr>name = py_str ''Czech'', native_name = [268, 101, 353, 116, 105, 110, 97]\<rparr>),
    (py_str ''da'', \<lparr>name = py_str ''Danish'', native_name = py_str ''Dansk''\<rparr>),
    (py_str ''nl'', \<lparr>name = py_str ''Dutch'', native_name = py_str ''Nederlands''\<rparr>),
    (py_str ''en'', \<lparr>name = py_str ''English'', native_name = py_str ''English''\<rparr>),
    (py_str ''eo'', \<lparr>name = py_str ''Esperanto'', native_name = py_str ''Esperanto''\<rparr>),
    (py_str ''et'', \<lparr>name = py_str ''Estonian'', native_name = py_str ''Eesti''\<rparr>),
    (py_str ''fi'', \<lparr>name = py_str ''Finnish'', native_name = py_str ''Suomi''\<rparr>),
    (py_str ''fr'', \<lparr>name = py_str ''French'', native_name = [70, 114, 97, 110, 231, 97, 105, 115]\<rparr>),
    (py_str ''fy'', \<lparr>name = py_str ''Frisian'', native_name = py_str ''Frysk''\<rparr>),
    (py_str ''gl'', \<lparr>name = py_str ''Galician'', native_name = py_str ''Galego''\<rparr>),
    (py_str ''ka'', \<lparr>name = py_str ''Georgian'', native_name = [4325, 4304, 4320, 4311, 4323, 4314, 4312]\<rparr>),
    (py_str ''de'', \<lparr>name = py_str ''German'', native_name = py_str ''Deutsch''\<rparr>),
    (py_str ''el'', \<lparr>name = py_str ''Greek'', native_name = [917, 955, 955, 951, 957, 953, 954, 940]\<rparr>),
    (py_str ''gu'', \<lparr>name = py_str ''Gujarati'', native_name = [2711, 2753, 2716, 2736, 2750, 2724, 2752]\<rparr>),
    (py_str ''ht'', \<lparr>name = py_str ''Haitian Creole'', native_name = [75, 114, 101, 121, 242, 108, 32, 65, 121, 105, 115, 121, 101, 110]\<rparr>),
    (py_str ''ha'', \<lparr>name = py_str ''Hausa'', native_name = py_str ''Hausa''\<rparr>),
    (py_str ''haw'', \<lparr>name = py_str ''Hawaiian'', native_name = [699, 332, 108, 101, 108, 111, 32, 72, 97, 119, 97, 105, 699, 105]\<rparr>),
    (py_str ''he'', \<lparr>name = py_str ''Hebrew'', native_name = [1506, 1489, 1512, 1497, 1514]\<rparr>),
    (py_str ''hi'', \<lparr>name = py_str ''Hindi'', native_name = [2361, 2367, 2344, 2381, 2342, 2368]\<rparr>),
    (py_str ''hmn'', \<lparr>name = py_str ''Hmong'', native_name = py_str ''Hmong''\<rparr>),
    (py_str ''hu'', \<lparr>name = py_str ''Hungarian'', native_name = py_str ''Magyar''\<rparr>),
    (py_str ''is'', \<lparr>name = py_str ''Icelandic'', native_name = [205, 115, 108, 101, 110, 115, 107, 97]\<rparr>),
    (py_str ''ig'', \<lparr>name = py_str ''Igbo'', native_name = py_str ''Igbo''\<rparr>),
    (py_str ''id'', \<lparr>name = py_str ''Indonesian'', native_name = py_str ''Indonesia''\<rparr>),
    (py_str ''ga'', \<lparr>name = py_str ''Irish'', native_name = py_str ''Gaeilge''\<rparr>),
    (py_str ''it'', \<lparr>name = py_str ''Italian'', native_name = py_str ''Italiano''\<rparr>),
    (py_str ''ja'', \<lparr>name = py_str ''Japanese'', native_name = [26085, 26412, 35486]\<rparr>),
    (py_str ''jv'', \<lparr>name = py_str ''Javanese'', native_name = py_str ''Basa Jawa''\<rparr>),
    (py_str ''kn'', \<lparr>name = py_str ''Kannada'', native_name = [3221, 3240, 3277, 3240, 3233]\<rparr>),
    (py_str ''kk'', \<lparr>name = py_str ''Kazakh'', native_name = [1178, 1072, 1079, 1072, 1179]\<rparr>),
    (py_str ''km'', \<lparr>name = py_str ''Khmer'', native_name = [6017, 6098, 6040, 6082, 6042]\<rparr>),
    (py_str ''ko'', \<lparr>name = py_str ''Korean'', native_name = [54620, 44397, 50612]\<rparr>),
    (py_str ''ku'', \<lparr>name = py_str ''Kurdish'', native_name = [75, 117, 114, 100, 238]\<rparr>),
    (py_str ''ky'', \<lparr>name = py_str ''Kyrgyz'', native_name = [1050, 1099, 1088, 1075, 1099, 1079, 1095, 1072]\<rparr>),
    (py_str ''lo'', \<lparr>name = py_str ''Lao'', native_name = [3749, 3762, 3751]\<rparr>),
    (py_str ''la'', \<lparr>name = py_str ''Latin'', native_name = py_str ''Latina''\<rparr>),
    (py_str ''lv'', \<lparr>name = py_str ''Latvian'', native_name = [76, 97, 116, 118, 105, 101, 353, 117]\<rparr>),
    (py_str ''lt'', \<lparr>name = py_str ''Lithuanian'', native_name = [76, 105, 101, 116, 117, 118, 105, 371]\<rparr>),
    (py_str ''lb'', \<lparr>name = py_str ''Luxembourgish'', native_name = [76, 235, 116, 122, 101, 98, 117, 101, 114, 103, 101, 115, 99, 104]\<rparr>),
    (py_str ''mk'', \<lparr>name = py_str ''Macedonian'', native_name = [1052, 1072, 1082, 1077, 1076, 1086, 1085, 1089, 1082, 1080]\<rparr>),
    (py_str ''mg'', \<lparr>name = py_str ''Malagasy'', native_name = py_str ''Malagasy''\<rparr>),
    (py_str ''ms'', \<lparr>name = py_str ''Malay'', native_name = py_str ''Bahasa Melayu''\<rparr>),
    (py_str ''ml'', \<lparr>name = py_str ''Malayalam'', native_name = [3374, 3378, 3375, 3390, 3379, 3330]\<rparr>),
    (py_str ''mt'', \<lparr>name = py_str ''Maltese'', native_name = py_str ''Malti''\<rparr>),
    (py_str ''mi'', \<lparr>name = py_str ''Maori'', native_name = [77, 257, 111, 114, 105]\<rparr>),
    (py_str ''mr'', \<lparr>name = py_str ''Marathi'', native_name = [2350, 2352, 2366, 2336, 2368]\<rparr>),
    (py_str ''mn'', \<lparr>name = py_str ''Mongolian'', native_name = [1052, 1086, 1085, 1075, 1086, 1083]\<rparr>),
    (py_str ''my'', \<lparr>name = py_str ''Myanmar (Burmese)'', native_name = [4121, 4156, 4116, 4154, 4121, 4140, 32, 40, 4119, 4121, 4140, 41]\<rparr>),
    (py_str ''ne'', \<lparr>name = py_str ''Nepali'', native_name = [2344, 2375, 2346, 2366, 2354, 2368]\<rparr>),
    (py_str ''no'', \<lparr>name = py_str ''Norwegian'', native_name = py_str ''Norsk''\<rparr>),
    (py_str ''ny'', \<lparr>name = py_str ''Nyanja (Chichewa)'', native_name = py_str ''Nyanja (Chichewa)''\<rparr>),
    (py_str ''or'', \<lparr>name = py_str ''Odia (Oriya)'', native_name = [2835, 2849, 2876, 2879, 2822, 32, 40, 2835, 2849, 2876, 2879, 2822, 41]\<rparr>),
    (py_str ''ps'', \<lparr>name = py_str ''Pashto'', native_name = [1662, 1690, 1578, 1608]\<rparr>),
    (py_str ''fa'', \<lparr>name = py_str ''Persian'', native_name = [1601, 1575, 1585, 1587, 1740]\<rparr>),
    (py_str ''pl'', \<lparr>name = py_str ''Polish'', native_name = py_str ''Polski''\<rparr>),
    (py_str ''pt'', \<lparr>name = py_str ''Portuguese'', native_name = [80, 111, 114, 116, 117, 103, 117, 234, 115]\<rparr>),
    (py_str ''pa'', \<lparr>name = py_str ''Punjabi'', native_name = [2602, 2672, 2588, 2622, 2604, 2624]\<rparr>),
    (py_str ''ro'', \<lparr>name = py_str ''Romanian'', native_name = [82, 111, 109, 226, 110, 259]\<rparr>),
    (py_str ''ru'', \<lparr>name = py_str ''Russian'', native_name = [1056, 1091, 1089, 1089, 1082, 1080, 1081]\<rparr>),
    (py_str ''sm'', \<lparr>name = py_str ''Samoan'', native_name = py_str ''Gagana Samoa''\<rparr>),
    (py_str ''gd'', \<lparr>name = py_str ''Scots Gaelic'', native_name = [71, 224, 105, 100, 104, 108, 105, 103]\<rparr>),
    (py_str ''sr'', \<lparr>name = py_str ''Serbian'', native_name = [1057, 1088, 1087, 1089, 1082, 1080]\<rparr>),
    (py_str ''st'', \<lparr>name = py_str ''Sesotho'', native_name = py_str ''Sesotho''\<rparr>),
    (py_str ''sn'', \<lparr>name = py_str ''Shona'', native_name = py_str ''Shona''\<rparr>),
    (py_str ''sd'', \<lparr>name = py_str ''Sindhi'', native_name = [1587, 1606, 1676, 1610]\<rparr>),
    (py_str ''si'', \<lparr>name = py_str ''Sinhala (Sinhalese)'', native_name = [3523, 3538, 3458, 3524, 3517]\<rparr>),
    (py_str ''sk'', \<lparr>name = py_str ''Slovak'', native_name = [83, 108, 111, 118, 101, 110, 269, 105, 110, 97]\<rparr>),
    (py_str ''sl'', \<lparr>name = py_str ''Slovenian'', native_name = [83, 108, 111, 118, 101, 110, 353, 269, 105, 110, 97]\<rparr>),
    (py_str ''so'', \<lparr>name = py_str ''Somali'', native_name = py_str ''Soomaali''\<rparr>),
    (py_str ''es'', \<lparr>name = py_str ''Spanish'', native_name = [69, 115, 112, 97, 241, 111, 108]\<rparr>),
    (py_str ''su'', \<lparr>name = py_str ''Sundanese'', native_name = py_str ''Basa Sunda''\<rparr>),
    (py_str ''sw'', \<lparr>name = py_str ''Swahili'', native_name = py_str ''Kiswahili''\<rparr>),
    (py_str ''sv'', \<lparr>name = py_str ''Swedish'', native_name = py_str ''Svenska''\<rparr>),
    (py_str ''tg'', \<lparr>name = py_str ''Tajik'', native_name = [1058, 1086, 1207, 1080, 1082, 1251]\<rparr>),
    (py_str ''ta'', \<lparr>name = py_str ''Tamil'', native_name = [2980, 2990, 3007, 2996, 3021]\<rparr>),
    (py_str ''tt'', \<lparr>name = py_str ''Tatar'', native_name = [1058, 1072, 1090, 1072, 1088]\<rparr>),
    (py_str ''te'', \<lparr>name = py_str ''Telugu'', native_name = [3108, 3142, 3122, 3137, 3095, 3137]\<rparr>),
    (py_str ''th'', \<lparr>name = py_str ''Thai'', native_name = [3652, 3607, 3618]\<rparr>),
    (py_str ''tr'', \<lparr>name = py_str ''Turkish'', native_name = [84, 252, 114, 107, 231, 101]\<rparr>),
    (py_str ''tk'', \<lparr>name = py_str ''Turkmen'', native_name = [84, 252, 114, 107, 109, 101, 110]\<rparr>),
    (py_str ''ak'', \<lparr>name = py_str ''Twi'', native_name = py_str ''Twi''\<rparr>),
    (py_str ''uk'', \<lparr>name = py_str ''Ukrainian'', native_name = [1059, 1082, 1088, 1072, 1111, 1085, 1089, 1100, 1082, 1072]\<rparr>),
    (py_str ''ur'', \<lparr>name = py_str ''Urdu'', native_name = [1575, 1585, 1583, 1608]\<rparr>),
    (py_str ''ug'', \<lparr>name = py_str ''Uyghur'', native_name = [1574, 1735, 1610, 1594, 1735, 1585, 1670, 1749]\<rparr>),
    (py_str ''uz'', \<lparr>name = py_str ''Uzbek'', native_name = [79, 39, 122, 98, 101, 107]\<rparr>),
    (py_str ''ve'', \<lparr>name = py_str ''Venda'', native_name = py_str ''Tshivenda''\<rparr>),
    (py_str ''vi'', \<lparr>name = py_str ''Vietnamese'', native_name = [84, 105, 7871, 110, 103, 32, 86, 105, 7879, 116]\<rparr>),
    (py_str ''cy'', \<lparr>name = py_str ''Welsh'', native_name = py_str ''Cymraeg''\<rparr>),
    (py_str ''xh'', \<lparr>name = py_str ''Xhosa'', native_name = py_str ''isiXhosa''\<rparr>),
    (py_str ''yi'', \<lparr>name = py_str ''Yiddish'', native_name = [1497, 1497, 1491, 1497, 1513]\<rparr>),
    (py_str ''yo'', \<lparr>name = py_str ''Yoruba'', native_name = [89, 111, 114, 249, 98, 225]\<rparr>),
    (py_str ''zu'', \<lparr>name = py_str ''Zulu'', native_name = py_str ''isiZulu''\<rparr>)
  ]"

definition detect_language_with_confidence_vercel ::
    "detector \<Rightarrow> pystr \<Rightarrow> (pystr \<times> py_float) \<times> event list" where
  "detect_language_with_confidence_vercel detect txt =
     (case detect txt of
        Inr detected_lang \<Rightarrow>
          let confidence =
                min (float_lit (95 / 100))
                    (float_add (float_lit (7 / 10))
                       (float_mul (float_of_int (int (length txt))) (float_lit (1 / 100))))
          in ((detected_lang, confidence), [DetectCall txt])
      | Inl e \<Rightarrow>
          ((py_str ''en'', float_lit (5 / 10)),
           [DetectCall txt, LogError (py_str ''Language detection failed: '') e]))"

definition perform_translation_vercel ::
    "translator \<Rightarrow> TranslationRequest \<Rightarrow> pystr \<Rightarrow> py_float \<Rightarrow>
     (py_exception + TranslationResponse) \<times> event list" where
  "perform_translation_vercel translator request detected_lang confidence =
     (let call = TranslatorCall detected_lang (TranslationRequest.target_language request) (text request);
          body =
            (case translator detected_lang (TranslationRequest.target_language request) (text request) of
               Inl e \<Rightarrow> Inl e
             | Inr None \<Rightarrow> Inl (HTTPException 500 (py_str ''Translation failed''))
             | Inr (Some translated) \<Rightarrow>
                 if translated = [] then Inl (HTTPException 500 (py_str ''Translation failed''))
                 else Inr \<lparr>original_text = text request,
                           detected_language = detected_lang,
                           confidence_level = confidence,
                           translated_text = translated,
                           target_language = TranslationRequest.target_language request\<rparr>)
      in case body of
           Inr response \<Rightarrow> (Inr response, [call])
         | Inl e \<Rightarrow>
             (Inl (HTTPException 500 (py_str ''Translation service error'')),
              [call, LogError (py_str ''Translation error: '') e]))"

definition translate_text_body_vercel ::
    "detector \<Rightarrow> translator \<Rightarrow> TranslationRequest \<Rightarrow>
     (py_exception + TranslationResponse) \<times> event list" where
  "translate_text_body_vercel detect translator request =
     (if strip (text request) = [] then
        (Inl (HTTPException 400 (py_str ''Text cannot be empty'')), [])
      else if \<not> key_in (TranslationRequest.target_language request) SUPPORTED_LANGUAGES_vercel then
        (Inl (HTTPException 400 (py_str ''Target language not supported'')), [])
      else
        let ((detected_lang, confidence), evs) = detect_language_with_confidence_vercel detect (text request)
        in if detected_lang = TranslationRequest.target_language request then
             (Inr \<lparr>original_text = text request,
                   detected_language = detected_lang,
                   confidence_level = confidence,
                   translated_text = text request,
                   target_language = TranslationRequest.target_language request\<rparr>, evs)
           else
             let (result, evs') = perform_translation_vercel translator request detected_lang confidence
             in (result, evs @ evs'))"

definition translate_text_vercel ::
    "detector \<Rightarrow> translator \<Rightarrow> TranslationRequest \<Rightarrow>
     (py_exception + TranslationResponse) \<times> event list" where
  "translate_text_vercel detect translator request =
     (case translate_text_body_vercel detect translator request of
        (Inl (HTTPException c d), evs) \<Rightarrow> (Inl (HTTPException c d), evs)
      | (Inl (OtherException m), evs) \<Rightarrow>
          (Inl (HTTPException 500 (py_str ''Internal server error'')),
           evs @ [LogError (py_str ''Unexpected error: '') (OtherException m)])
      | (Inr response, evs) \<Rightarrow> (Inr response, evs))"

section \<open>The confidence formula as the specification words it\<close>

text \<open>
  The specification gives the confidence on detector success as
  \<^verbatim>\<open>min(0.95, 0.7 + 0.01 * length(text))\<close>. This definition follows those words, with
  the arithmetic of Python floats; it is compared below with what
  \<open>detect_language_with_confidence\<close> computes.
\<close>

definition confidence_formula :: "nat \<Rightarrow> py_float" where
  "confidence_formula n =
     min (float_lit (95 / 100))
         (float_add (float_lit (7 / 10)) (float_mul (float_lit (1 / 100)) (float_of_int (int n))))"

section \<open>Properties of the Python values\<close>

subsection \<open>Strings\<close>

lemma py_str_eq_iff: "py_str a = py_str b \<longleftrightarrow> a = b"
proof -
  have "inj (of_char :: char \<Rightarrow> nat)"
    by (rule injI) (metis char_of_char)
  then show ?thesis
    unfolding py_str_def by (simp add: inj_map_eq_map)
qed

lemma strip_empty_iff: "strip s = [] \<longleftrightarrow> (\<forall>c \<in> set s. isspace c)"
proof -
  have "(\<forall>x \<in> set (dropWhile isspace s). isspace x) \<longleftrightarrow> dropWhile isspace s = []"
    using hd_dropWhile [of isspace s]
    by (cases "dropWhile isspace s") (auto dest: set_dropWhileD)
  then show ?thesis
    by (simp add: strip_def dropWhile_eq_Nil_conv)
qed

lemma strip_Hello: "strip (py_str ''Hello'') \<noteq> []"
  by (simp add: strip_empty_iff py_str_def isspace_def)

lemma strip_Bonjour: "strip (py_str ''Bonjour le monde!'') \<noteq> []"
  by (simp add: strip_empty_iff py_str_def isspace_def)

lemma strip_anything: "strip (py_str ''anything'') \<noteq> []"
  by (simp add: strip_empty_iff py_str_def isspace_def)

lemma length_Hello: "length (py_str ''Hello'') = 5"
  by (simp add: py_str_def)

lemma length_Bonjour: "length (py_str ''Bonjour le monde!'') = 17"
  by (simp add: py_str_def)

lemma length_welcome: "length (py_str ''Hello, welcome to our translation service!'') = 42"
  by (simp add: py_str_def)

subsection \<open>Rounding to a double\<close>

lemma round_half_even_of_int: "round_half_even (of_int k) = k"
  by (simp add: round_half_even_def)

lemma round_half_even_bounds:
  "\<lfloor>x\<rfloor> \<le> round_half_even x" "round_half_even x \<le> \<lfloor>x\<rfloor> + 1"
  by (simp_all add: round_half_even_def Let_def)

lemma round_half_even_mono:
  assumes "x \<le> y"
  shows "round_half_even x \<le> round_half_even y"
proof (cases "\<lfloor>x\<rfloor> = \<lfloor>y\<rfloor>")
  case True
  then have "x - of_int \<lfloor>x\<rfloor> \<le> y - of_int \<lfloor>y\<rfloor>"
    using assms by simp
  with True show ?thesis
    by (auto simp: round_half_even_def Let_def)
next
  case False
  then have "\<lfloor>x\<rfloor> < \<lfloor>y\<rfloor>"
    using floor_mono [OF assms] by linarith
  then have "round_half_even x \<le> \<lfloor>y\<rfloor>"
    using round_half_even_bounds(2) [of x] by linarith
  then show ?thesis
    using round_half_even_bounds(1) [of y] by linarith
qed

lemma floor_log2_bounds:
  assumes "0 < x"
  shows "2 powi floor_log2 x \<le> x" and "x < 2 powi (floor_log2 x + 1)"
proof -
  have "2 powi floor_log2 x \<le> x \<and> x < 2 powi (floor_log2 x + 1)"
  proof (cases "1 \<le> x")
    case True
    define n where "n = \<lfloor>x\<rfloor>"
    have n: "0 < n" using True by (simp add: n_def)
    have e: "floor_log2 x = bitlen n - 1"
      using True by (simp add: floor_log2_def n_def)
    have b: "1 \<le> bitlen n"
      using n bitlen_eq_zero_iff [of n] bitlen_nonneg [of n] by linarith
    from bitlen_bounds [OF n] have lo: "2 ^ nat (bitlen n - 1) \<le> n" and hi: "n < 2 ^ nat (bitlen n)"
      by simp_all
    have "(2::rat) powi (bitlen n - 1) = 2 ^ nat (bitlen n - 1)"
      using b by (simp add: power_int_nonneg_exp)
    also have "\<dots> = of_int (2 ^ nat (bitlen n - 1))" by simp
    also have "\<dots> \<le> of_int n" using lo by (simp only: of_int_le_iff)
    also have "\<dots> \<le> x" by (simp add: n_def)
    finally have 1: "2 powi floor_log2 x \<le> x" by (simp add: e)
    have "n + 1 \<le> 2 ^ nat (bitlen n)" using hi by simp
    then have "(of_int (n + 1) :: rat) \<le> of_int (2 ^ nat (bitlen n))"
      by (simp only: of_int_le_iff)
    moreover have "x < of_int (n + 1)" unfolding n_def by linarith
    ultimately have "x < of_int (2 ^ nat (bitlen n))" by linarith
    also have "\<dots> = 2 powi (bitlen n)"
      using b by (simp add: power_int_nonneg_exp)
    finally have 2: "x < 2 powi (floor_log2 x + 1)" by (simp add: e)
    from 1 2 show ?thesis ..
  next
    case False
    define y where "y = 1 / x"
    define m where "m = \<lceil>y\<rceil> - 1"
    have y1: "1 < y" using False assms by (simp add: y_def)
    then have m: "0 < m" unfolding m_def by linarith
    have e: "floor_log2 x = - bitlen m"
      using False by (simp add: floor_log2_def m_def y_def)
    have b: "1 \<le> bitlen m"
      using m bitlen_eq_zero_iff [of m] bitlen_nonneg [of m] by linarith
    from bitlen_bounds [OF m] have lo: "2 ^ nat (bitlen m - 1) \<le> m" and hi: "m < 2 ^ nat (bitlen m)"
      by simp_all
    have my: "of_int m < y" "y \<le> of_int m + 1"
      unfolding m_def by linarith+
    have "m + 1 \<le> 2 ^ nat (bitlen m)" using hi by simp
    then have "(of_int (m + 1) :: rat) \<le> of_int (2 ^ nat (bitlen m))"
      by (simp only: of_int_le_iff)
    then have "y \<le> 2 ^ nat (bitlen m)" using my(2) by simp
    then have "1 / x \<le> 2 ^ nat (bitlen m)" by (simp add: y_def)
    then have "1 / 2 ^ nat (bitlen m) \<le> x"
      using assms by (simp add: field_simps)
    moreover have "(2::rat) powi (- bitlen m) = 1 / 2 ^ nat (bitlen m)"
      using b by (simp add: power_int_minus_divide power_int_nonneg_exp)
    ultimately have 1: "2 powi floor_log2 x \<le> x" by (simp add: e)
    have "(2::rat) ^ nat (bitlen m - 1) \<le> of_int m"
      using lo by simp
    then have "2 ^ nat (bitlen m - 1) < y" using my(1) by (rule order_le_less_trans)
    then have "2 ^ nat (bitlen m - 1) < 1 / x" by (simp add: y_def)
    then have "x < 1 / 2 ^ nat (bitlen m - 1)"
      using assms by (simp add: field_simps)
    moreover have "(2::rat) powi (- bitlen m + 1) = 1 / 2 ^ nat (bitlen m - 1)"
    proof -
      have "- bitlen m + 1 = - (bitlen m - 1)" by simp
      then have "(2::rat) powi (- bitlen m + 1) = 1 / 2 powi (bitlen m - 1)"
        by (simp only: power_int_minus_divide)
      then show ?thesis using b by (simp add: power_int_nonneg_exp)
    qed
    ultimately have 2: "x < 2 powi (floor_log2 x + 1)" by (simp add: e)
    from 1 2 show ?thesis ..
  qed
  then show "2 powi floor_log2 x \<le> x" and "x < 2 powi (floor_log2 x + 1)" by simp_all
qed

lemma round_double_0: "round_double 0 = 0"
  by (simp add: round_double_def)

lemma round_double_pos:
  assumes "0 < x"
  shows "round_double x =
           of_int (round_half_even (x / 2 powi (floor_log2 x - 52))) * 2 powi (floor_log2 x - 52)"
  using assms by (simp add: round_double_def Let_def)

lemma round_double_binade:
  assumes "0 < x"
  shows "2 powi floor_log2 x \<le> round_double x"
    and "round_double x \<le> 2 powi (floor_log2 x + 1)"
proof -
  define e where "e = floor_log2 x"
  define u :: rat where "u = 2 powi (e - 52)"
  define a :: int where "a = 2 ^ 52"
  define b :: int where "b = 2 ^ 53"
  have u: "0 < u" by (simp add: u_def)
  have lo: "of_int a * u = 2 powi e"
    by (simp add: u_def a_def power_int_diff)
  have hi: "of_int b * u = 2 powi (e + 1)"
    by (simp add: u_def b_def power_int_diff power_int_add)
  have r: "round_double x = of_int (round_half_even (x / u)) * u"
    using assms by (simp add: round_double_pos e_def u_def)
  have "of_int a * u \<le> x" "x < of_int b * u"
    unfolding lo hi e_def using floor_log2_bounds [OF assms] by simp_all
  then have "of_int a \<le> x / u" "x / u \<le> of_int b"
    using u by (simp_all add: pos_le_divide_eq pos_divide_le_eq)
  then have "round_half_even (of_int a) \<le> round_half_even (x / u)"
    and "round_half_even (x / u) \<le> round_half_even (of_int b)"
    by (simp_all only: round_half_even_mono)
  then have "a \<le> round_half_even (x / u)" "round_half_even (x / u) \<le> b"
    by (simp_all only: round_half_even_of_int)
  then have "(of_int a :: rat) \<le> of_int (round_half_even (x / u))"
    and "(of_int (round_half_even (x / u)) :: rat) \<le> of_int b"
    by (simp_all only: of_int_le_iff)
  then have "of_int a * u \<le> round_double x" "round_double x \<le> of_int b * u"
    unfolding r using u by (simp_all only: mult_le_cancel_right_pos)
  then show "2 powi floor_log2 x \<le> round_double x"
    and "round_double x \<le> 2 powi (floor_log2 x + 1)"
    unfolding lo hi e_def by simp_all
qed

lemma round_double_nonneg: "0 \<le> x \<Longrightarrow> 0 \<le> round_double x"
proof (cases "x = 0")
  case True
  then show ?thesis by (simp add: round_double_0)
next
  case False
  assume "0 \<le> x"
  with False have "0 < x" by simp
  from round_double_binade(1) [OF this] show ?thesis
    using zero_less_power_int [of "2::rat" "floor_log2 x"] by linarith
qed

lemma round_double_mono:
  assumes "0 \<le> x" and "x \<le> y"
  shows "round_double x \<le> round_double y"
proof (cases "x = 0")
  case True
  then show ?thesis
    using assms round_double_nonneg [of y] by (simp add: round_double_0)
next
  case False
  with assms have x: "0 < x" and y: "0 < y" by simp_all
  have "2 powi floor_log2 x \<le> x" and "y < 2 powi (floor_log2 y + 1)"
    using floor_log2_bounds(1) [OF x] floor_log2_bounds(2) [OF y] by simp_all
  with assms(2) have lt: "(2::rat) powi floor_log2 x < 2 powi (floor_log2 y + 1)"
    by linarith
  have le: "floor_log2 x \<le> floor_log2 y"
  proof (rule ccontr)
    assume "\<not> floor_log2 x \<le> floor_log2 y"
    then have "floor_log2 y + 1 \<le> floor_log2 x" by simp
    then have "(2::rat) powi (floor_log2 y + 1) \<le> 2 powi floor_log2 x"
      by (rule power_int_increasing) simp
    with lt show False by simp
  qed
  show ?thesis
  proof (cases "floor_log2 x = floor_log2 y")
    case True
    define u :: rat where "u = 2 powi (floor_log2 y - 52)"
    have u: "0 < u" by (simp add: u_def)
    have "x / u \<le> y / u"
      using assms(2) u by (simp add: divide_right_mono)
    then have "round_half_even (x / u) \<le> round_half_even (y / u)"
      by (rule round_half_even_mono)
    then have "(of_int (round_half_even (x / u)) :: rat) \<le> of_int (round_half_even (y / u))"
      by (simp only: of_int_le_iff)
    then have "of_int (round_half_even (x / u)) * u \<le> of_int (round_half_even (y / u)) * u"
      using u by (simp only: mult_le_cancel_right_pos)
    then show ?thesis
      using x y True by (simp add: round_double_pos u_def)
  next
    case False
    with le have "floor_log2 x + 1 \<le> floor_log2 y" by simp
    then have "(2::rat) powi (floor_log2 x + 1) \<le> 2 powi floor_log2 y"
      by (rule power_int_increasing) simp
    then show ?thesis
      using round_double_binade(2) [OF x] round_double_binade(1) [OF y] by linarith
  qed
qed

text \<open>
  The result of \<open>round_double\<close> is a double of the binade of its argument (a significand
  between \<open>2 ^ 52\<close> and \<open>2 ^ 53\<close> at the unit in the last place of that binade), at
  most half a unit in the last place away from the argument.
\<close>

lemma round_half_even_error: "\<bar>of_int (round_half_even x) - x\<bar> \<le> 1 / 2"
proof -
  have "of_int \<lfloor>x\<rfloor> \<le> x" "x < of_int \<lfloor>x\<rfloor> + 1"
    by linarith+
  then show ?thesis
    by (auto simp: round_half_even_def Let_def)
qed

lemma round_double_error:
  assumes "0 < x"
  shows "\<bar>round_double x - x\<bar> \<le> 2 powi (floor_log2 x - 53)"
proof -
  define u :: rat where "u = 2 powi (floor_log2 x - 52)"
  have u: "0 < u" by (simp add: u_def)
  have h: "u / 2 = 2 powi (floor_log2 x - 53)"
    by (simp add: u_def power_int_diff)
  have "round_double x - x = (of_int (round_half_even (x / u)) - x / u) * u"
    using assms u by (simp add: round_double_pos u_def left_diff_distrib)
  then have "\<bar>round_double x - x\<bar> = \<bar>of_int (round_half_even (x / u)) - x / u\<bar> * u"
    using u by (simp add: abs_mult)
  also have "\<dots> \<le> 1 / 2 * u"
    using round_half_even_error [of "x / u"] u by (simp only: mult_le_cancel_right_pos)
  finally show ?thesis
    using h by simp
qed

lemma round_double_significand:
  assumes "0 < x"
  shows "\<exists>k. round_double x = of_int k * 2 powi (floor_log2 x - 52) \<and> 2 ^ 52 \<le> k \<and> k \<le> 2 ^ 53"
proof -
  define u :: rat where "u = 2 powi (floor_log2 x - 52)"
  define k where "k = round_half_even (x / u)"
  have u: "0 < u" by (simp add: u_def)
  have r: "round_double x = of_int k * u"
    using assms by (simp add: round_double_pos u_def k_def)
  have "of_int (2 ^ 52) * u = 2 powi floor_log2 x" "of_int (2 ^ 53) * u = 2 powi (floor_log2 x + 1)"
    by (simp_all add: u_def power_int_diff power_int_add)
  with round_double_binade [OF assms]
  have "of_int (2 ^ 52) * u \<le> of_int k * u" "of_int k * u \<le> of_int (2 ^ 53) * u"
    unfolding r by (simp_all only:)
  then have "(of_int (2 ^ 52) :: rat) \<le> of_int k" "(of_int k :: rat) \<le> of_int (2 ^ 53)"
    using u by (simp_all only: mult_le_cancel_right_pos)
  then have "2 ^ 52 \<le> k" "k \<le> 2 ^ 53"
    by (simp_all only: of_int_le_iff)
  with r show ?thesis
    unfolding u_def by blast
qed

subsection \<open>The float operations and the literals of the confidence computation\<close>

lemma float_of_int_mono: "0 \<le> m \<Longrightarrow> m \<le> n \<Longrightarrow> float_of_int m \<le> float_of_int n"
  unfolding float_of_int_def by (rule round_double_mono) simp_all

lemma float_of_int_nonneg: "0 \<le> n \<Longrightarrow> 0 \<le> float_of_int n"
  unfolding float_of_int_def by (rule round_double_nonneg) simp

lemma float_mul_mono:
  "0 \<le> a \<Longrightarrow> 0 \<le> x \<Longrightarrow> x \<le> y \<Longrightarrow> float_mul a x \<le> float_mul a y"
  unfolding float_mul_def by (rule round_double_mono) (simp_all add: mult_left_mono)

lemma float_add_mono:
  "0 \<le> a \<Longrightarrow> 0 \<le> x \<Longrightarrow> x \<le> y \<Longrightarrow> float_add a x \<le> float_add a y"
  unfolding float_add_def by (rule round_double_mono) simp_all

lemma float_mul_nonneg: "0 \<le> a \<Longrightarrow> 0 \<le> x \<Longrightarrow> 0 \<le> float_mul a x"
  unfolding float_mul_def by (rule round_double_nonneg) simp

text \<open>
  The three literals of the confidence computation round to the doubles that CPython
  prints for them: \<^verbatim>\<open>0x1.6666666666666p-1\<close>, \<^verbatim>\<open>0x1.47ae147ae147bp-7\<close> and
  \<^verbatim>\<open>0x1.e666666666666p-1\<close>.
\<close>

lemma float_lit_values:
  "float_lit (7 / 10) = 6305039478318694 / 2 ^ 53"
  "float_lit (1 / 100) = 5764607523034235 / 2 ^ 59"
  "float_lit (95 / 100) = 8556839292003942 / 2 ^ 53"
  by code_simp+

lemma float_lit_half: "float_lit (1 / 2) = 1 / 2"
  by code_simp

lemma float_lit_7_10_le_95_100: "float_lit (7 / 10) \<le> float_lit (95 / 100)"
  by code_simp

lemma float_lit_7_10_nonneg: "0 \<le> float_lit (7 / 10)"
  by code_simp

lemma float_lit_1_100_lower: "1 / 100 \<le> float_lit (1 / 100)"
  by code_simp

lemma float_lit_1_100_nonneg: "0 \<le> float_lit (1 / 100)"
  using float_lit_1_100_lower by linarith

lemma round_double_float_lit_7_10: "round_double (float_lit (7 / 10)) = float_lit (7 / 10)"
  by code_simp

lemma round_double_25: "round_double 25 = 25"
  by code_simp

lemma round_double_quarter: "round_double (1 / 4) = 1 / 4"
  by code_simp

lemma round_double_7_10_plus_quarter: "round_double (float_lit (7 / 10) + 1 / 4) = float_lit (95 / 100)"
  by code_simp

subsection \<open>The confidence formula\<close>

lemma product_nonneg: "0 \<le> float_mul (float_lit (1 / 100)) (float_of_int (int n))"
  by (rule float_mul_nonneg [OF float_lit_1_100_nonneg float_of_int_nonneg]) simp

lemma confidence_formula_mono:
  assumes "m \<le> n"
  shows "confidence_formula m \<le> confidence_formula n"
proof -
  have "float_of_int (int m) \<le> float_of_int (int n)"
    using assms by (intro float_of_int_mono) simp_all
  then have "float_mul (float_lit (1 / 100)) (float_of_int (int m))
      \<le> float_mul (float_lit (1 / 100)) (float_of_int (int n))"
    by (intro float_mul_mono float_lit_1_100_nonneg float_of_int_nonneg) simp_all
  then have "float_add (float_lit (7 / 10)) (float_mul (float_lit (1 / 100)) (float_of_int (int m)))
      \<le> float_add (float_lit (7 / 10)) (float_mul (float_lit (1 / 100)) (float_of_int (int n)))"
    by (intro float_add_mono float_lit_7_10_nonneg product_nonneg)
  then show ?thesis
    unfolding confidence_formula_def by (rule min.mono [OF order_refl])
qed

lemma confidence_formula_lower: "float_lit (7 / 10) \<le> confidence_formula n"
proof -
  have "float_add (float_lit (7 / 10)) 0
      \<le> float_add (float_lit (7 / 10)) (float_mul (float_lit (1 / 100)) (float_of_int (int n)))"
    by (intro float_add_mono float_lit_7_10_nonneg product_nonneg order_refl)
  moreover have "float_add (float_lit (7 / 10)) 0 = float_lit (7 / 10)"
    unfolding float_add_def add_0_right by (rule round_double_float_lit_7_10)
  ultimately have "float_lit (7 / 10)
      \<le> float_add (float_lit (7 / 10)) (float_mul (float_lit (1 / 100)) (float_of_int (int n)))"
    by (simp only:)
  with float_lit_7_10_le_95_100 show ?thesis
    unfolding confidence_formula_def by (rule min.boundedI)
qed

lemma confidence_formula_upper: "confidence_formula n \<le> float_lit (95 / 100)"
  unfolding confidence_formula_def by (rule min.cobounded1)

lemma confidence_formula_saturated:
  assumes "25 \<le> n"
  shows "confidence_formula n = float_lit (95 / 100)"
proof -
  have "float_of_int 25 \<le> float_of_int (int n)"
    using assms by (intro float_of_int_mono) simp_all
  then have n: "25 \<le> float_of_int (int n)"
    unfolding float_of_int_def [of 25] of_int_numeral round_double_25 .
  have "1 / 4 \<le> float_lit (1 / 100) * 25"
    using float_lit_1_100_lower by linarith
  also have "\<dots> \<le> float_lit (1 / 100) * float_of_int (int n)"
    using n float_lit_1_100_nonneg by (rule mult_left_mono)
  finally have "round_double (1 / 4) \<le> round_double (float_lit (1 / 100) * float_of_int (int n))"
    by (intro round_double_mono) simp_all
  then have p: "1 / 4 \<le> float_mul (float_lit (1 / 100)) (float_of_int (int n))"
    unfolding round_double_quarter float_mul_def .
  have "float_add (float_lit (7 / 10)) (1 / 4)
      \<le> float_add (float_lit (7 / 10)) (float_mul (float_lit (1 / 100)) (float_of_int (int n)))"
    using p by (intro float_add_mono float_lit_7_10_nonneg) simp_all
  then have "float_lit (95 / 100)
      \<le> float_add (float_lit (7 / 10)) (float_mul (float_lit (1 / 100)) (float_of_int (int n)))"
    unfolding float_add_def [of _ "1 / 4"] round_double_7_10_plus_quarter .
  then show ?thesis
    unfolding confidence_formula_def by (rule min.absorb1)
qed

lemma confidence_formula_values:
  "confidence_formula 0 = float_lit (7 / 10)"
  "confidence_formula 24 = 8466767299456532 / 2 ^ 53"
  "confidence_formula 25 = float_lit (95 / 100)"
  by code_simp+

lemma confidence_17: "confidence_formula 17 = 7836263351624663 / 2 ^ 53"
  by code_simp

section \<open>The language table\<close>

lemma distinct_keys: "distinct (map fst SUPPORTED_LANGUAGES)"
  by (simp add: SUPPORTED_LANGUAGES_def py_str_eq_iff)

lemma en_supported: "key_in (py_str ''en'') SUPPORTED_LANGUAGES"
  by (simp add: key_in_def SUPPORTED_LANGUAGES_def py_str_eq_iff)

lemma es_supported: "key_in (py_str ''es'') SUPPORTED_LANGUAGES"
  by (simp add: key_in_def SUPPORTED_LANGUAGES_def py_str_eq_iff)

lemma fr_supported: "key_in (py_str ''fr'') SUPPORTED_LANGUAGES"
  by (simp add: key_in_def SUPPORTED_LANGUAGES_def py_str_eq_iff)

lemma not_a_real_code: "\<not> key_in (py_str ''xx-not-a-real-code'') SUPPORTED_LANGUAGES"
  by (simp add: key_in_def SUPPORTED_LANGUAGES_def py_str_eq_iff)

lemma foldl_append_one:
  "foldl (\<lambda>acc x. acc @ [f x]) acc xs = acc @ map f xs"
  by (induction xs arbitrary: acc) simp_all

lemma get_supported_languages_map:
  "get_supported_languages =
     map (\<lambda>(code, info). \<lparr>code = code, LanguageInfo.name = name info,
                            LanguageInfo.native_name = native_name info\<rparr>)
       (items SUPPORTED_LANGUAGES)"
  unfolding get_supported_languages_def
  using foldl_append_one [of "\<lambda>(code, info). \<lparr>code = code, LanguageInfo.name = name info,
                            LanguageInfo.native_name = native_name info\<rparr>" "[]" "items SUPPORTED_LANGUAGES"]
  by (simp add: case_prod_unfold)

section \<open>The detection step and the handler\<close>

lemma detect_success:
  "detect txt = Inr lang \<Longrightarrow>
   detect_language_with_confidence detect txt =
     ((lang, confidence_formula (length txt)), [DetectCall txt])"
  by (simp add: detect_language_with_confidence_def confidence_formula_def float_mul_def mult.commute)

lemma detect_fallback:
  "detect txt = Inl e \<Longrightarrow>
   detect_language_with_confidence detect txt =
     ((py_str ''en'', 1 / 2), [DetectCall txt, LogError (py_str ''Language detection failed: '') e])"
  by (simp add: detect_language_with_confidence_def float_lit_half)

lemma perform_translation_raises:
  "translator detected_lang (TranslationRequest.target_language request) (text request) = Inl e \<Longrightarrow>
   perform_translation translator request detected_lang confidence =
     (Inl (HTTPException 500 (py_str ''Translation service error'')),
      [TranslatorCall detected_lang (TranslationRequest.target_language request) (text request),
       LogError (py_str ''Translation error: '') e])"
  by (simp add: perform_translation_def)

lemma perform_translation_returns:
  "translator detected_lang (TranslationRequest.target_language request) (text request) = Inr (Some translated) \<Longrightarrow>
   translated \<noteq> [] \<Longrightarrow>
   perform_translation translator request detected_lang confidence =
     (Inr \<lparr>original_text = text request, detected_language = detected_lang,
           confidence_level = confidence, translated_text = translated,
           target_language = TranslationRequest.target_language request\<rparr>,
      [TranslatorCall detected_lang (TranslationRequest.target_language request) (text request)])"
  by (simp add: perform_translation_def)

lemma perform_translation_falsy:
  "translator detected_lang (TranslationRequest.target_language request) (text request) = Inr translated \<Longrightarrow>
   translated = None \<or> translated = Some [] \<Longrightarrow>
   perform_translation translator request detected_lang confidence =
     (Inl (HTTPException 500 (py_str ''Translation service error'')),
      [TranslatorCall detected_lang (TranslationRequest.target_language request) (text request),
       LogError (py_str ''Translation error: '') (HTTPException 500 (py_str ''Translation failed''))])"
  by (auto simp: perform_translation_def)

lemma perform_translation_call:
  "\<exists>rest. snd (perform_translation translator request detected_lang confidence) =
     TranslatorCall detected_lang (TranslationRequest.target_language request) (text request) # rest"
  by (auto simp: perform_translation_def Let_def split: sum.splits option.splits)

lemma translate_text_valid:
  assumes "strip (text request) \<noteq> []"
    and "key_in (TranslationRequest.target_language request) SUPPORTED_LANGUAGES"
    and "detect_language_with_confidence detect (text request) = ((detected_lang, confidence), evs)"
  shows "translate_text detect translator request =
     (if detected_lang = TranslationRequest.target_language request then
        (Inr \<lparr>original_text = text request, detected_language = detected_lang,
              confidence_level = confidence, translated_text = text request,
              target_language = TranslationRequest.target_language request\<rparr>, evs)
      else
        (fst (perform_translation translator request detected_lang confidence),
         evs @ snd (perform_translation translator request detected_lang confidence)))"
  using assms
  by (auto simp: translate_text_def translate_text_body_def perform_translation_def Let_def
           split: sum.splits option.splits py_exception.splits prod.splits)

section \<open>The deployment variant against app/main.py\<close>

lemma SUPPORTED_LANGUAGES_vercel_eq: "SUPPORTED_LANGUAGES_vercel = SUPPORTED_LANGUAGES"
  unfolding SUPPORTED_LANGUAGES_vercel_def SUPPORTED_LANGUAGES_def by (rule refl)

lemma detect_language_with_confidence_vercel_eq:
  "detect_language_with_confidence_vercel = detect_language_with_confidence"
  unfolding detect_language_with_confidence_vercel_def detect_language_with_confidence_def
  by (rule refl)

lemma perform_translation_vercel_eq: "perform_translation_vercel = perform_translation"
  unfolding perform_translation_vercel_def perform_translation_def by (rule refl)

lemma translate_text_body_vercel_eq: "translate_text_body_vercel = translate_text_body"
  unfolding translate_text_body_vercel_def translate_text_body_def
    SUPPORTED_LANGUAGES_vercel_eq detect_language_with_confidence_vercel_eq
    perform_translation_vercel_eq
  by (rule refl)

section \<open>The claims\<close>

text \<open>
  Claim C1. The claim is that an empty result of the translator gives the status 500 with
  the detail "Translation failed". The handler raises that exception inside the
  \<^verbatim>\<open>try\<close> whose handler \<^verbatim>\<open>except Exception\<close> catches it, so what leaves the handler is
  the detail "Translation service error": here for the text "Hello", the target "es", a
  detector that answers "en" and a translator that returns the empty string.
\<close>

theorem translate_text_empty_translation:
  "translate_text (\<lambda>t. Inr (py_str ''en'')) (\<lambda>s t x. Inr (Some []))
     \<lparr>text = py_str ''Hello'', TranslationRequest.target_language = py_str ''es''\<rparr> =
     (Inl (HTTPException 500 (py_str ''Translation service error'')),
      [DetectCall (py_str ''Hello''),
       TranslatorCall (py_str ''en'') (py_str ''es'') (py_str ''Hello''),
       LogError (py_str ''Translation error: '') (HTTPException 500 (py_str ''Translation failed''))])
   \<and> fst (translate_text (\<lambda>t. Inr (py_str ''en'')) (\<lambda>s t x. Inr (Some []))
          \<lparr>text = py_str ''Hello'', TranslationRequest.target_language = py_str ''es''\<rparr>) \<noteq>
       Inl (HTTPException 500 (py_str ''Translation failed''))"
proof -
  have d: "detect_language_with_confidence (\<lambda>t. Inr (py_str ''en'')) (py_str ''Hello'') =
       ((py_str ''en'', confidence_formula (length (py_str ''Hello''))),
        [DetectCall (py_str ''Hello'')])"
    by (simp add: detect_success)
  have n: "py_str ''en'' \<noteq> py_str ''es''"
    by (simp add: py_str_def)
  show ?thesis
    using translate_text_valid [of
        "\<lparr>text = py_str ''Hello'', TranslationRequest.target_language = py_str ''es''\<rparr>"
        "\<lambda>t. Inr (py_str ''en'')" _ _ _ "\<lambda>s t x. Inr (Some [])"] strip_Hello es_supported d n
      perform_translation_falsy [of "\<lambda>s t x. Inr (Some [])" "py_str ''en''"
        "\<lparr>text = py_str ''Hello'', TranslationRequest.target_language = py_str ''es''\<rparr>" "Some []"]
    by (simp add: py_str_eq_iff)
qed

text \<open>
  Claim C2. When the detector succeeds on a text, the confidence that the detection step
  returns is the formula \<^verbatim>\<open>min(0.95, 0.7 + 0.01 * length(text))\<close> of the specification,
  in the arithmetic of Python floats, at the number of code points of the text. It lies
  between the floats 0.7 and 0.95, it does not decrease when the text gets longer, and it
  is the float 0.95 for every text of 25 code points or more.
\<close>

theorem detect_language_with_confidence_confidence:
  assumes "detect txt = Inr lang"
  shows "snd (fst (detect_language_with_confidence detect txt)) = confidence_formula (length txt)
     \<and> float_lit (7 / 10) \<le> snd (fst (detect_language_with_confidence detect txt))
     \<and> snd (fst (detect_language_with_confidence detect txt)) \<le> float_lit (95 / 100)
     \<and> (\<forall>txt' lang'. detect txt' = Inr lang' \<and> length txt \<le> length txt' \<longrightarrow>
           snd (fst (detect_language_with_confidence detect txt))
             \<le> snd (fst (detect_language_with_confidence detect txt')))
     \<and> (25 \<le> length txt \<longrightarrow>
           snd (fst (detect_language_with_confidence detect txt)) = float_lit (95 / 100))"
proof -
  have c: "snd (fst (detect_language_with_confidence detect t)) = confidence_formula (length t)"
    if "detect t = Inr l" for t l
    using that detect_success [of detect t l] by simp
  have 1: "snd (fst (detect_language_with_confidence detect txt)) = confidence_formula (length txt)"
    using assms by (rule c)
  have 2: "float_lit (7 / 10) \<le> snd (fst (detect_language_with_confidence detect txt))"
    unfolding 1 by (rule confidence_formula_lower)
  have 3: "snd (fst (detect_language_with_confidence detect txt)) \<le> float_lit (95 / 100)"
    unfolding 1 by (rule confidence_formula_upper)
  have 4: "\<forall>txt' lang'. detect txt' = Inr lang' \<and> length txt \<le> length txt' \<longrightarrow>
           snd (fst (detect_language_with_confidence detect txt))
             \<le> snd (fst (detect_language_with_confidence detect txt'))"
    using c confidence_formula_mono unfolding 1 by metis
  have 5: "25 \<le> length txt \<longrightarrow>
           snd (fst (detect_language_with_confidence detect txt)) = float_lit (95 / 100)"
    unfolding 1 using confidence_formula_saturated by blast
  from 1 2 3 4 5 show ?thesis by blast
qed

theorem detect_language_with_confidence_confidence_witness:
  "length (py_str ''Hello'') \<le> length (py_str ''Hello, welcome to our translation service!'')
   \<and> 25 \<le> length (py_str ''Hello, welcome to our translation service!'')
   \<and> snd (fst (detect_language_with_confidence (\<lambda>t. Inr (py_str ''en'')) (py_str ''Hello'')))
       = confidence_formula 5
   \<and> float_lit (7 / 10)
       \<le> snd (fst (detect_language_with_confidence (\<lambda>t. Inr (py_str ''en'')) (py_str ''Hello'')))
   \<and> snd (fst (detect_language_with_confidence (\<lambda>t. Inr (py_str ''en'')) (py_str ''Hello'')))
       \<le> snd (fst (detect_language_with_confidence (\<lambda>t. Inr (py_str ''en''))
             (py_str ''Hello, welcome to our translation service!'')))
   \<and> snd (fst (detect_language_with_confidence (\<lambda>t. Inr (py_str ''en''))
             (py_str ''Hello, welcome to our translation service!''))) = float_lit (95 / 100)"
  using length_Hello length_welcome
    detect_language_with_confidence_confidence [of "\<lambda>t. Inr (py_str ''en'')" "py_str ''Hello''" "py_str ''en''"]
    detect_language_with_confidence_confidence [of "\<lambda>t. Inr (py_str ''en'')"
      "py_str ''Hello, welcome to our translation service!''" "py_str ''en''"]
  by simp

text \<open>
  Claim C3. The handler checks the text first and the target language second, and both
  before any external call: a text that is empty after stripping gives the status 400
  with the detail "Text cannot be empty", whatever the target language is; a text that
  is not, with a target language that is no key of the table, gives the status 400 with
  the detail "Target language not supported". In both cases the list of events is empty:
  neither the detector nor the translator is called.
\<close>

theorem translate_text_validation:
  "(strip (text request) = [] \<longrightarrow>
      translate_text detect translator request =
        (Inl (HTTPException 400 (py_str ''Text cannot be empty'')), [])
      \<and> external_calls (snd (translate_text detect translator request)) = 0)
   \<and> (strip (text request) \<noteq> [] \<and>
       \<not> key_in (TranslationRequest.target_language request) SUPPORTED_LANGUAGES \<longrightarrow>
      translate_text detect translator request =
        (Inl (HTTPException 400 (py_str ''Target language not supported'')), [])
      \<and> external_calls (snd (translate_text detect translator request)) = 0)"
  by (simp add: translate_text_def translate_text_body_def external_calls_def)

theorem translate_text_validation_witness:
  "strip (py_str ''  '') = []
   \<and> translate_text (\<lambda>t. Inr (py_str ''en'')) (\<lambda>s t x. Inr (Some x))
       \<lparr>text = py_str ''  '', TranslationRequest.target_language = py_str ''xx-not-a-real-code''\<rparr> =
        (Inl (HTTPException 400 (py_str ''Text cannot be empty'')), [])
   \<and> strip (py_str ''Hello'') \<noteq> []
   \<and> \<not> key_in (py_str ''xx-not-a-real-code'') SUPPORTED_LANGUAGES
   \<and> translate_text (\<lambda>t. Inr (py_str ''en'')) (\<lambda>s t x. Inr (Some x))
       \<lparr>text = py_str ''Hello'', TranslationRequest.target_language = py_str ''xx-not-a-real-code''\<rparr> =
        (Inl (HTTPException 400 (py_str ''Target language not supported'')), [])"
proof -
  have e: "strip (py_str ''  '') = []"
    by (simp add: strip_empty_iff py_str_def isspace_def)
  show ?thesis
    using e strip_Hello not_a_real_code
      translate_text_validation [of "\<lparr>text = py_str ''  '', TranslationRequest.target_language = py_str ''xx-not-a-real-code''\<rparr>"
         "\<lambda>t. Inr (py_str ''en'')" "\<lambda>s t x. Inr (Some x)"]
      translate_text_validation [of "\<lparr>text = py_str ''Hello'', TranslationRequest.target_language = py_str ''xx-not-a-real-code''\<rparr>"
         "\<lambda>t. Inr (py_str ''en'')" "\<lambda>s t x. Inr (Some x)"]
    by simp
qed

text \<open>
  Claim C4. For a text that is not empty after stripping and a supported target language,
  when the detection step yields the target language itself, the handler answers with
  the text unchanged as the translation and with the confidence of the detection step
  (the confidence formula, when the detector succeeded), and the translator is not called.
\<close>

theorem translate_text_short_circuit:
  assumes "strip (text request) \<noteq> []"
    and "key_in (TranslationRequest.target_language request) SUPPORTED_LANGUAGES"
    and "detect_language_with_confidence detect (text request) = ((detected_lang, confidence), evs)"
    and "detected_lang = TranslationRequest.target_language request"
  shows "translate_text detect translator request =
           (Inr \<lparr>original_text = text request, detected_language = detected_lang,
                 confidence_level = confidence, translated_text = text request,
                 target_language = TranslationRequest.target_language request\<rparr>, evs)
         \<and> translator_calls (snd (translate_text detect translator request)) = 0
         \<and> (\<forall>lang. detect (text request) = Inr lang \<longrightarrow>
               confidence = confidence_formula (length (text request)))"
proof -
  have r: "translate_text detect translator request =
           (Inr \<lparr>original_text = text request, detected_language = detected_lang,
                 confidence_level = confidence, translated_text = text request,
                 target_language = TranslationRequest.target_language request\<rparr>, evs)"
    using translate_text_valid [OF assms(1-3)] assms(4) by simp
  have t: "translator_calls evs = 0"
    using assms(3)
    by (auto simp: detect_language_with_confidence_def translator_calls_def Let_def split: sum.splits)
  have c: "confidence = confidence_formula (length (text request))"
    if "detect (text request) = Inr lang" for lang
    using assms(3) that detect_success [of detect "text request" lang] by simp
  from r t c show ?thesis by simp
qed

theorem translate_text_short_circuit_witness:
  "strip (py_str ''Bonjour le monde!'') \<noteq> []
   \<and> key_in (py_str ''fr'') SUPPORTED_LANGUAGES
   \<and> detect_language_with_confidence (\<lambda>t. Inr (py_str ''fr'')) (py_str ''Bonjour le monde!'') =
       ((py_str ''fr'', 7836263351624663 / 2 ^ 53), [DetectCall (py_str ''Bonjour le monde!'')])
   \<and> translate_text (\<lambda>t. Inr (py_str ''fr'')) (\<lambda>s t x. Inl (OtherException []))
       \<lparr>text = py_str ''Bonjour le monde!'', TranslationRequest.target_language = py_str ''fr''\<rparr> =
       (Inr \<lparr>original_text = py_str ''Bonjour le monde!'', detected_language = py_str ''fr'',
             confidence_level = 7836263351624663 / 2 ^ 53,
             translated_text = py_str ''Bonjour le monde!'', target_language = py_str ''fr''\<rparr>,
        [DetectCall (py_str ''Bonjour le monde!'')])
   \<and> translator_calls (snd (translate_text (\<lambda>t. Inr (py_str ''fr'')) (\<lambda>s t x. Inl (OtherException []))
       \<lparr>text = py_str ''Bonjour le monde!'', TranslationRequest.target_language = py_str ''fr''\<rparr>)) = 0
   \<and> confidence_formula (length (py_str ''Bonjour le monde!'')) = 7836263351624663 / 2 ^ 53"
proof -
  have d: "detect_language_with_confidence (\<lambda>t. Inr (py_str ''fr'')) (py_str ''Bonjour le monde!'') =
       ((py_str ''fr'', 7836263351624663 / 2 ^ 53), [DetectCall (py_str ''Bonjour le monde!'')])"
    by (simp add: detect_success length_Bonjour confidence_17)
  show ?thesis
    using strip_Bonjour fr_supported d
      translate_text_short_circuit [of
        "\<lparr>text = py_str ''Bonjour le monde!'', TranslationRequest.target_language = py_str ''fr''\<rparr>"
        "\<lambda>t. Inr (py_str ''fr'')" "py_str ''fr''" "7836263351624663 / 2 ^ 53"
        "[DetectCall (py_str ''Bonjour le monde!'')]" "\<lambda>s t x. Inl (OtherException [])"]
    by (simp add: translator_calls_def)
qed

text \<open>
  Claim C5. For a text that is not empty after stripping and a supported target language,
  when the detector raises, the detection step yields the language "en" with the
  confidence 0.5 instead of failing. With the target "en" the handler answers; with any
  other target it logs the failure and then calls the translator with the source "en",
  and when the translator returns a string that is not empty the handler answers with
  it, the detected language "en" and the confidence 0.5.
\<close>

theorem translate_text_detector_raises:
  assumes "strip (text request) \<noteq> []"
    and "key_in (TranslationRequest.target_language request) SUPPORTED_LANGUAGES"
    and "detect (text request) = Inl e"
  shows "fst (detect_language_with_confidence detect (text request)) = (py_str ''en'', 1 / 2)
     \<and> (TranslationRequest.target_language request = py_str ''en'' \<longrightarrow>
          fst (translate_text detect translator request) =
            Inr \<lparr>original_text = text request, detected_language = py_str ''en'',
                  confidence_level = 1 / 2, translated_text = text request,
                  target_language = py_str ''en''\<rparr>)
     \<and> (TranslationRequest.target_language request \<noteq> py_str ''en'' \<longrightarrow>
          take 3 (snd (translate_text detect translator request)) =
            [DetectCall (text request), LogError (py_str ''Language detection failed: '') e,
             TranslatorCall (py_str ''en'') (TranslationRequest.target_language request) (text request)])
     \<and> (TranslationRequest.target_language request \<noteq> py_str ''en'' \<and>
         translator (py_str ''en'') (TranslationRequest.target_language request) (text request) =
           Inr (Some translated) \<and> translated \<noteq> [] \<longrightarrow>
          translate_text detect translator request =
            (Inr \<lparr>original_text = text request, detected_language = py_str ''en'',
                  confidence_level = 1 / 2, translated_text = translated,
                  target_language = TranslationRequest.target_language request\<rparr>,
             [DetectCall (text request), LogError (py_str ''Language detection failed: '') e,
              TranslatorCall (py_str ''en'') (TranslationRequest.target_language request) (text request)]))"
proof -
  let ?evs = "[DetectCall (text request), LogError (py_str ''Language detection failed: '') e]"
  have d: "detect_language_with_confidence detect (text request) = ((py_str ''en'', 1 / 2), ?evs)"
    using assms(3) by (rule detect_fallback)
  note v = translate_text_valid [OF assms(1,2) d, of translator]
  obtain rest where c: "snd (perform_translation translator request (py_str ''en'') (1 / 2)) =
      TranslatorCall (py_str ''en'') (TranslationRequest.target_language request) (text request) # rest"
    using perform_translation_call by blast
  have 1: "fst (detect_language_with_confidence detect (text request)) = (py_str ''en'', 1 / 2)"
    by (simp add: d)
  have 2: "TranslationRequest.target_language request = py_str ''en'' \<longrightarrow>
          fst (translate_text detect translator request) =
            Inr \<lparr>original_text = text request, detected_language = py_str ''en'',
                  confidence_level = 1 / 2, translated_text = text request,
                  target_language = py_str ''en''\<rparr>"
    using v by simp
  have 3: "TranslationRequest.target_language request \<noteq> py_str ''en'' \<longrightarrow>
          take 3 (snd (translate_text detect translator request)) =
            [DetectCall (text request), LogError (py_str ''Language detection failed: '') e,
             TranslatorCall (py_str ''en'') (TranslationRequest.target_language request) (text request)]"
    using v c by auto
  have 4: "TranslationRequest.target_language request \<noteq> py_str ''en'' \<and>
         translator (py_str ''en'') (TranslationRequest.target_language request) (text request) =
           Inr (Some translated) \<and> translated \<noteq> [] \<longrightarrow>
          translate_text detect translator request =
            (Inr \<lparr>original_text = text request, detected_language = py_str ''en'',
                  confidence_level = 1 / 2, translated_text = translated,
                  target_language = TranslationRequest.target_language request\<rparr>,
             [DetectCall (text request), LogError (py_str ''Language detection failed: '') e,
              TranslatorCall (py_str ''en'') (TranslationRequest.target_language request) (text request)])"
    using v perform_translation_returns [of translator "py_str ''en''" request translated "1 / 2"]
    by auto
  from 1 2 3 4 show ?thesis by blast
qed

theorem translate_text_detector_raises_witness:
  "strip (py_str ''anything'') \<noteq> []
   \<and> key_in (py_str ''fr'') SUPPORTED_LANGUAGES
   \<and> key_in (py_str ''en'') SUPPORTED_LANGUAGES
   \<and> py_str ''fr'' \<noteq> py_str ''en''
   \<and> py_str ''quelque chose'' \<noteq> []
   \<and> translate_text (\<lambda>t. Inl (OtherException (py_str ''No features in text.'')))
        (\<lambda>s t x. Inr (Some (py_str ''quelque chose'')))
        \<lparr>text = py_str ''anything'', TranslationRequest.target_language = py_str ''fr''\<rparr> =
       (Inr \<lparr>original_text = py_str ''anything'', detected_language = py_str ''en'',
             confidence_level = 1 / 2, translated_text = py_str ''quelque chose'',
             target_language = py_str ''fr''\<rparr>,
        [DetectCall (py_str ''anything''),
         LogError (py_str ''Language detection failed: '') (OtherException (py_str ''No features in text.'')),
         TranslatorCall (py_str ''en'') (py_str ''fr'') (py_str ''anything'')])
   \<and> fst (translate_text (\<lambda>t. Inl (OtherException (py_str ''No features in text.'')))
        (\<lambda>s t x. Inr (Some (py_str ''quelque chose'')))
        \<lparr>text = py_str ''anything'', TranslationRequest.target_language = py_str ''en''\<rparr>) =
       Inr \<lparr>original_text = py_str ''anything'', detected_language = py_str ''en'',
             confidence_level = 1 / 2, translated_text = py_str ''anything'',
             target_language = py_str ''en''\<rparr>"
proof -
  have n: "py_str ''fr'' \<noteq> py_str ''en''" "py_str ''quelque chose'' \<noteq> []"
    by (simp_all add: py_str_def)
  show ?thesis
    using strip_anything fr_supported en_supported n
      translate_text_detector_raises [of
        "\<lparr>text = py_str ''anything'', TranslationRequest.target_language = py_str ''fr''\<rparr>"
        "\<lambda>t. Inl (OtherException (py_str ''No features in text.''))"
        "OtherException (py_str ''No features in text.'')"
        "\<lambda>s t x. Inr (Some (py_str ''quelque chose''))" "py_str ''quelque chose''"]
      translate_text_detector_raises [of
        "\<lparr>text = py_str ''anything'', TranslationRequest.target_language = py_str ''en''\<rparr>"
        "\<lambda>t. Inl (OtherException (py_str ''No features in text.''))"
        "OtherException (py_str ''No features in text.'')"
        "\<lambda>s t x. Inr (Some (py_str ''quelque chose''))" "py_str ''quelque chose''"]
    by simp
qed

text \<open>
  Claim C6. For a text that is not empty after stripping and a supported target language
  that differs from the detected one, when the translator raises, the handler fails with
  the status 500 and the detail "Translation service error".
\<close>

theorem translate_text_translator_raises:
  assumes "strip (text request) \<noteq> []"
    and "key_in (TranslationRequest.target_language request) SUPPORTED_LANGUAGES"
    and "detect_language_with_confidence detect (text request) = ((detected_lang, confidence), evs)"
    and "detected_lang \<noteq> TranslationRequest.target_language request"
    and "translator detected_lang (TranslationRequest.target_language request) (text request) = Inl e"
  shows "translate_text detect translator request =
           (Inl (HTTPException 500 (py_str ''Translation service error'')),
            evs @ [TranslatorCall detected_lang (TranslationRequest.target_language request) (text request),
                   LogError (py_str ''Translation error: '') e])"
  using translate_text_valid [OF assms(1-3)] assms(4,5)
    perform_translation_raises [of translator detected_lang request e confidence]
  by simp

theorem translate_text_translator_raises_witness:
  "strip (py_str ''Bonjour le monde!'') \<noteq> []
   \<and> key_in (py_str ''en'') SUPPORTED_LANGUAGES
   \<and> py_str ''fr'' \<noteq> py_str ''en''
   \<and> translate_text (\<lambda>t. Inr (py_str ''fr'')) (\<lambda>s t x. Inl (OtherException (py_str ''timeout'')))
       \<lparr>text = py_str ''Bonjour le monde!'', TranslationRequest.target_language = py_str ''en''\<rparr> =
       (Inl (HTTPException 500 (py_str ''Translation service error'')),
        [DetectCall (py_str ''Bonjour le monde!''),
         TranslatorCall (py_str ''fr'') (py_str ''en'') (py_str ''Bonjour le monde!''),
         LogError (py_str ''Translation error: '') (OtherException (py_str ''timeout''))])"
proof -
  have d: "detect_language_with_confidence (\<lambda>t. Inr (py_str ''fr'')) (py_str ''Bonjour le monde!'') =
       ((py_str ''fr'', 7836263351624663 / 2 ^ 53), [DetectCall (py_str ''Bonjour le monde!'')])"
    by (simp add: detect_success length_Bonjour confidence_17)
  have n: "py_str ''fr'' \<noteq> py_str ''en''"
    by (simp add: py_str_def)
  show ?thesis
    using strip_Bonjour en_supported d n
      translate_text_translator_raises [of
        "\<lparr>text = py_str ''Bonjour le monde!'', TranslationRequest.target_language = py_str ''en''\<rparr>"
        "\<lambda>t. Inr (py_str ''fr'')" "py_str ''fr''" "7836263351624663 / 2 ^ 53"
        "[DetectCall (py_str ''Bonjour le monde!'')]"
        "\<lambda>s t x. Inl (OtherException (py_str ''timeout''))" "OtherException (py_str ''timeout'')"]
    by simp
qed

text \<open>
  Claim C7. For a text that is not empty after stripping and a supported target language
  that differs from the detected one, when the translator returns a string that is not
  empty, the handler answers with that string as the translation, the request's text as
  it came (not stripped) as the original, the language and the confidence of the
  detection step, and the request's target language.
\<close>

theorem translate_text_success:
  assumes "strip (text request) \<noteq> []"
    and "key_in (TranslationRequest.target_language request) SUPPORTED_LANGUAGES"
    and "detect_language_with_confidence detect (text request) = ((detected_lang, confidence), evs)"
    and "detected_lang \<noteq> TranslationRequest.target_language request"
    and "translator detected_lang (TranslationRequest.target_language request) (text request) =
           Inr (Some translated)"
    and "translated \<noteq> []"
  shows "translate_text detect translator request =
           (Inr \<lparr>original_text = text request, detected_language = detected_lang,
                 confidence_level = confidence, translated_text = translated,
                 target_language = TranslationRequest.target_language request\<rparr>,
            evs @ [TranslatorCall detected_lang (TranslationRequest.target_language request) (text request)])"
  using translate_text_valid [OF assms(1-3)] assms(4-6)
    perform_translation_returns [of translator detected_lang request translated confidence]
  by simp

theorem translate_text_success_witness:
  "strip (py_str ''Bonjour le monde!'') \<noteq> []
   \<and> key_in (py_str ''en'') SUPPORTED_LANGUAGES
   \<and> py_str ''fr'' \<noteq> py_str ''en''
   \<and> py_str ''Hello world!'' \<noteq> []
   \<and> translate_text (\<lambda>t. Inr (py_str ''fr''))
        (\<lambda>s t x. if (s, t, x) = (py_str ''fr'', py_str ''en'', py_str ''Bonjour le monde!'')
                  then Inr (Some (py_str ''Hello world!'')) else Inl (OtherException []))
       \<lparr>text = py_str ''Bonjour le monde!'', TranslationRequest.target_language = py_str ''en''\<rparr> =
       (Inr \<lparr>original_text = py_str ''Bonjour le monde!'', detected_language = py_str ''fr'',
             confidence_level = 7836263351624663 / 2 ^ 53,
             translated_text = py_str ''Hello world!'', target_language = py_str ''en''\<rparr>,
        [DetectCall (py_str ''Bonjour le monde!''),
         TranslatorCall (py_str ''fr'') (py_str ''en'') (py_str ''Bonjour le monde!'')])"
proof -
  have d: "detect_language_with_confidence (\<lambda>t. Inr (py_str ''fr'')) (py_str ''Bonjour le monde!'') =
       ((py_str ''fr'', 7836263351624663 / 2 ^ 53), [DetectCall (py_str ''Bonjour le monde!'')])"
    by (simp add: detect_success length_Bonjour confidence_17)
  have n: "py_str ''fr'' \<noteq> py_str ''en''" "py_str ''Hello world!'' \<noteq> []"
    by (simp_all add: py_str_def)
  show ?thesis
    using strip_Bonjour en_supported d n
      translate_text_success [of
        "\<lparr>text = py_str ''Bonjour le monde!'', TranslationRequest.target_language = py_str ''en''\<rparr>"
        "\<lambda>t. Inr (py_str ''fr'')" "py_str ''fr''" "7836263351624663 / 2 ^ 53"
        "[DetectCall (py_str ''Bonjour le monde!'')]"
        "\<lambda>s t x. if (s, t, x) = (py_str ''fr'', py_str ''en'', py_str ''Bonjour le monde!'')
                  then Inr (Some (py_str ''Hello world!'')) else Inl (OtherException [])"
        "py_str ''Hello world!''"]
    by simp
qed

text \<open>
  Claim C8. The listing has as many records as the language table has entries (109, with
  pairwise distinct keys); the codes of its records, in order, are the keys of the table
  in the order of the table's items, so that every code is a key of the table.
\<close>

theorem get_supported_languages_listing:
  "length get_supported_languages = length (items SUPPORTED_LANGUAGES)
   \<and> length (items SUPPORTED_LANGUAGES) = 109
   \<and> distinct (map fst (items SUPPORTED_LANGUAGES))
   \<and> map code get_supported_languages = map fst (items SUPPORTED_LANGUAGES)
   \<and> list_all (\<lambda>l. key_in (code l) SUPPORTED_LANGUAGES) get_supported_languages"
proof -
  have m: "map code get_supported_languages = map fst (items SUPPORTED_LANGUAGES)"
    by (simp add: get_supported_languages_map case_prod_unfold)
  have l: "length get_supported_languages = length (items SUPPORTED_LANGUAGES)"
    by (simp add: get_supported_languages_map)
  have n: "length (items SUPPORTED_LANGUAGES) = 109"
    by (simp add: items_def SUPPORTED_LANGUAGES_def)
  have d: "distinct (map fst (items SUPPORTED_LANGUAGES))"
    by (simp add: items_def distinct_keys)
  have "\<forall>l \<in> set get_supported_languages. code l \<in> set (map code get_supported_languages)"
    by simp
  then have k: "list_all (\<lambda>l. key_in (code l) SUPPORTED_LANGUAGES) get_supported_languages"
    unfolding m by (simp add: list_all_iff key_in_def items_def)
  from l n d m k show ?thesis by simp
qed

text \<open>
  Claim C9. The handler of app/main_vercel.py and the handler of app/main.py give the
  same result (the same response, or the same status and detail) and the same events, for
  every request and every behaviour of the detector and of the translator.
\<close>

theorem translate_text_vercel_eq:
  "translate_text_vercel detect translator request = translate_text detect translator request"
  unfolding translate_text_vercel_def translate_text_def translate_text_body_vercel_eq
  by (rule refl)

text \<open>
  Claim C10. For a text that is not empty after stripping and the target language "en",
  when the detector raises, the handler answers through the short-circuit: the text
  unchanged as the translation, the detected language "en" and the confidence 0.5, and
  the translator is not called.
\<close>

theorem translate_text_detector_raises_target_en:
  assumes "strip (text request) \<noteq> []"
    and "TranslationRequest.target_language request = py_str ''en''"
    and "detect (text request) = Inl e"
  shows "translate_text detect translator request =
           (Inr \<lparr>original_text = text request, detected_language = py_str ''en'',
                 confidence_level = 1 / 2, translated_text = text request,
                 target_language = py_str ''en''\<rparr>,
            [DetectCall (text request), LogError (py_str ''Language detection failed: '') e])
         \<and> translator_calls (snd (translate_text detect translator request)) = 0"
  using assms en_supported detect_fallback [of detect "text request" e]
    translate_text_valid [of request detect "py_str ''en''" "1 / 2"
      "[DetectCall (text request), LogError (py_str ''Language detection failed: '') e]" translator]
  by (simp add: translator_calls_def)

theorem translate_text_detector_raises_target_en_witness:
  "strip (py_str ''Hello'') \<noteq> []
   \<and> translate_text (\<lambda>t. Inl (OtherException (py_str ''No features in text.'')))
        (\<lambda>s t x. Inl (OtherException []))
        \<lparr>text = py_str ''Hello'', TranslationRequest.target_language = py_str ''en''\<rparr> =
       (Inr \<lparr>original_text = py_str ''Hello'', detected_language = py_str ''en'',
             confidence_level = 1 / 2, translated_text = py_str ''Hello'',
             target_language = py_str ''en''\<rparr>,
        [DetectCall (py_str ''Hello''),
         LogError (py_str ''Language detection failed: '') (OtherException (py_str ''No features in text.''))])"
  using strip_Hello
    translate_text_detector_raises_target_en [of
      "\<lparr>text = py_str ''Hello'', TranslationRequest.target_language = py_str ''en''\<rparr>"
      "\<lambda>t. Inl (OtherException (py_str ''No features in text.''))"
      "OtherException (py_str ''No features in text.'')" "\<lambda>s t x. Inl (OtherException [])"]
  by simp

end
